theory Spec2Isabelle
  imports Main
begin

section \<open>Common values\<close>

text \<open>
  A JavaScript exception.  Every rejection of a collaborator (merge engine, transport,
  storage, handlers) is an \<^verbatim>\<open>Error\<close> object carrying a message.  The errors of the
  source whose message interpolates a value keep that value as data: the server id of
  \<^verbatim>\<open>Invalid serverId returned by server: ${serverId}\<close>, the caught error of
  \<^verbatim>\<open>initializeLibSessionUtilWrappers failed with ${e.message}\<close>.
\<close>

datatype error =
  Error string
  | InvalidServerIdError "int option"
  | InitializeFailedWith error

text \<open>\<^verbatim>\<open>Uint8Array\<close>\<close>

type_synonym bytes = "nat list"

section \<open>LibSessionUtil: config variants and wire kinds\<close>

text \<open>
  \<^verbatim>\<open>ConfigWrapperUser\<close> is the union of the four user variant names;
  \<^verbatim>\<open>ConfigWrapperObjectTypes\<close> adds the group variants, named
  \<^verbatim>\<open>MetaGroupConfig-<group pubkey>\<close>.  The constructor \<open>MetaGroupConfig\<close> carries
  the group pubkey, which is what \<^verbatim>\<open>getGroupPubkeyFromWrapperType\<close> reads back.
\<close>

datatype ConfigWrapperUser =
  UserConfig
  | ContactsConfig
  | UserGroupsConfig
  | ConvoInfoVolatileConfig

datatype ConfigWrapperObjectTypes =
  UserVariant ConfigWrapperUser
  | MetaGroupConfig string

text \<open>
  \<^verbatim>\<open>SignalService.SharedConfigMessage.Kind\<close>: the four members the source names, and
  \<open>OtherKind n\<close> for any other value found on the wire at run time.
\<close>

datatype Kind =
  USER_PROFILE
  | CONTACTS
  | USER_GROUPS
  | CONVO_INFO_VOLATILE
  | OtherKind int

definition requiredUserVariants :: "ConfigWrapperUser list" where
  "requiredUserVariants =
     [UserConfig, ContactsConfig, UserGroupsConfig, ConvoInfoVolatileConfig]"

text \<open>The members of the wire enumeration, in the order of \<^verbatim>\<open>kindToVariant\<close>'s cases.\<close>

definition wireKinds :: "Kind list" where
  "wireKinds = [USER_PROFILE, CONTACTS, USER_GROUPS, CONVO_INFO_VOLATILE]"

text \<open>
  Modelled from the spec: the type guards \<^verbatim>\<open>isUserConfigWrapperType\<close> and
  \<^verbatim>\<open>isMetaWrapperType\<close> are not among the sources; they tell the user-scoped variants
  from the group-scoped ones.
\<close>

fun isUserConfigWrapperType :: "ConfigWrapperObjectTypes \<Rightarrow> bool" where
  "isUserConfigWrapperType (UserVariant v) = True"
| "isUserConfigWrapperType (MetaGroupConfig g) = False"

fun isMetaWrapperType :: "ConfigWrapperObjectTypes \<Rightarrow> bool" where
  "isMetaWrapperType (UserVariant v) = False"
| "isMetaWrapperType (MetaGroupConfig g) = True"

text \<open>
  Modelled from the spec: \<^verbatim>\<open>assertUnreachable(x, message)\<close> is not among the sources.
  Reaching it is an invariant violation, raised at once and not recoverable: it raises an
  error carrying the message (the interpolated value is left out of the message) and
  returns nothing.
\<close>

definition assertUnreachable :: "string \<Rightarrow> error + 'a" where
  "assertUnreachable msg = Inl (Error msg)"

fun kindToVariant :: "Kind \<Rightarrow> error + ConfigWrapperObjectTypes" where
  "kindToVariant USER_PROFILE = Inr (UserVariant UserConfig)"
| "kindToVariant CONTACTS = Inr (UserVariant ContactsConfig)"
| "kindToVariant USER_GROUPS = Inr (UserVariant UserGroupsConfig)"
| "kindToVariant CONVO_INFO_VOLATILE = Inr (UserVariant ConvoInfoVolatileConfig)"
| "kindToVariant (OtherKind n) = assertUnreachable ''kindToVariant: Unsupported variant''"

fun variantToKind :: "ConfigWrapperObjectTypes \<Rightarrow> error + Kind" where
  "variantToKind (UserVariant UserConfig) = Inr USER_PROFILE"
| "variantToKind (UserVariant ContactsConfig) = Inr CONTACTS"
| "variantToKind (UserVariant UserGroupsConfig) = Inr USER_GROUPS"
| "variantToKind (UserVariant ConvoInfoVolatileConfig) = Inr CONVO_INFO_VOLATILE"
| "variantToKind (MetaGroupConfig g) = assertUnreachable ''variantToKind: Unsupported kind''"

section \<open>LibSessionUtil: markAsPushed\<close>

text \<open>
  The merge engine (\<^verbatim>\<open>GenericWrapperActions\<close>) is a collaborator outside the source:
  its state is a value of an arbitrary type \<open>'w\<close> and its operations are parameters.
  \<open>confirmPushed\<close> updates that state or rejects; \<open>needsDump\<close> reads it or rejects.
\<close>

record 'w WrapperActions =
  confirmPushed :: "'w \<Rightarrow> ConfigWrapperUser \<Rightarrow> int \<Rightarrow> string \<Rightarrow> error + 'w"
  needsDump :: "'w \<Rightarrow> ConfigWrapperUser \<Rightarrow> error + bool"

text \<open>
  \<open>markAsPushed acts us w variant pubkey seqno hash\<close>: \<open>us\<close> is what
  \<^verbatim>\<open>UserUtils.getOurPubKeyStrFromCache()\<close> returns, \<open>w\<close> the engine's state at the call.
  The result pairs the promise's outcome with the engine's state afterwards.
\<close>

definition markAsPushed ::
  "'w WrapperActions \<Rightarrow> string \<Rightarrow> 'w \<Rightarrow> ConfigWrapperUser \<Rightarrow> string \<Rightarrow> int \<Rightarrow> string
     \<Rightarrow> (error + bool) \<times> 'w" where
  "markAsPushed acts us w variant pubkey seqno hash =
     (if pubkey \<noteq> us then (Inl (Error ''FIXME, generic case is to be done''), w)
      else (case confirmPushed acts w variant seqno hash of
              Inl e \<Rightarrow> (Inl e, w)
            | Inr w' \<Rightarrow> (needsDump acts w' variant, w')))"

text \<open>A concrete engine for evaluation: the state is the list of confirmed pushes.\<close>

definition demoActions :: "((ConfigWrapperUser \<times> int \<times> string) list) WrapperActions" where
  "demoActions =
     \<lparr> confirmPushed = (\<lambda>w v s h. Inr (w @ [(v, s, h)])),
       needsDump = (\<lambda>w v. Inr (w \<noteq> [])) \<rparr>"

text \<open>An engine whose \<open>confirmPushed\<close> rejects.\<close>

definition demoRejectingActions :: "((ConfigWrapperUser \<times> int \<times> string) list) WrapperActions" where
  "demoRejectingActions =
     \<lparr> confirmPushed = (\<lambda>w v s h. Inl (Error ''engine unavailable'')),
       needsDump = (\<lambda>w v. Inr False) \<rparr>"

section \<open>LibSessionUtil: pendingChangesForPubkey\<close>

text \<open>
  A row of \<^verbatim>\<open>ConfigDumpData.getAllDumpsWithoutData()\<close>: the owner and the variant of a
  stored dump.  The call returns the rows of every owner.
\<close>

record ConfigDumpRowWithoutData =
  publicKey :: string
  variant :: ConfigWrapperObjectTypes

text \<open>What \<^verbatim>\<open>GenericWrapperActions.push\<close> resolves to: \<^verbatim>\<open>{ data, seqno, hashes }\<close>.\<close>

record PushResult =
  push_data :: bytes
  push_seqno :: int
  push_hashes :: "string list"

text \<open>
  The merge engine's queries, as parameters over the engine's state \<open>'w\<close>; each may reject.
  One call of \<^verbatim>\<open>pendingChangesForPubkey\<close> reads the engine at the state \<open>w\<close> it
  finds: every answer within the call is taken at that state (no local edit runs
  concurrently, and a push does not change what the engine reports next).
\<close>

record 'w WrapperQueries =
  needsPush :: "'w \<Rightarrow> ConfigWrapperUser \<Rightarrow> error + bool"
  push :: "'w \<Rightarrow> ConfigWrapperUser \<Rightarrow> error + PushResult"
  storageNamespace :: "'w \<Rightarrow> ConfigWrapperUser \<Rightarrow> error + int"

text \<open>
  \<^verbatim>\<open>Long.fromNumber\<close> of the \<^verbatim>\<open>long\<close> package on an integral number: the value
  itself inside the signed 64-bit range, the nearest bound outside it.
\<close>

definition Long_fromNumber :: "int \<Rightarrow> int" where
  "Long_fromNumber n =
     (if n \<le> - (2 ^ 63) then - (2 ^ 63)
      else if n + 1 \<ge> 2 ^ 63 then 2 ^ 63 - 1
      else n)"

text \<open>
  The message built by \<^verbatim>\<open>new SharedConfigMessage({ data, kind, seqno, timestamp })\<close>
  and the result entry; the fields \<^verbatim>\<open>message\<close> and \<^verbatim>\<open>namespace\<close> of the entry are
  \<open>conf_message\<close> and \<open>conf_namespace\<close>.
\<close>

record SharedConfigMessage =
  data :: bytes
  kind :: Kind
  seqno :: int
  timestamp :: int

record OutgoingConfResult =
  conf_message :: SharedConfigMessage
  conf_namespace :: int
  oldMessageHashes :: "string list"

text \<open>
  The body of \<^verbatim>\<open>requiredUserVariants.forEach\<close>: a placeholder row is pushed when no
  row of the local account has the required variant.
\<close>

definition addRequiredVariant ::
  "string \<Rightarrow> ConfigDumpRowWithoutData list \<Rightarrow> ConfigWrapperUser \<Rightarrow> ConfigDumpRowWithoutData list" where
  "addRequiredVariant us dumps requiredVariant =
     (case find (\<lambda>m. publicKey m = us \<and> variant m = UserVariant requiredVariant) dumps of
        None \<Rightarrow> dumps @ [\<lparr> publicKey = us, variant = UserVariant requiredVariant \<rparr>]
      | Some m \<Rightarrow> dumps)"

definition withRequiredVariants ::
  "string \<Rightarrow> string \<Rightarrow> ConfigDumpRowWithoutData list \<Rightarrow> ConfigDumpRowWithoutData list" where
  "withRequiredVariants us pubkey dumps =
     (if pubkey = us then foldl (addRequiredVariant us) dumps requiredUserVariants else dumps)"

text \<open>
  The \<^verbatim>\<open>for\<close> loop over the rows.  \<open>now index\<close> is what
  \<^verbatim>\<open>GetNetworkTime.getNowWithNetworkOffset()\<close> returns in iteration \<open>index\<close>.  A
  rejection of an awaited engine call leaves the function at once.  The two
  \<^verbatim>\<open>window.log.info\<close> lines are not modelled.
\<close>

fun pendingChangesLoop ::
  "'w WrapperQueries \<Rightarrow> 'w \<Rightarrow> (nat \<Rightarrow> int) \<Rightarrow> nat \<Rightarrow> ConfigDumpRowWithoutData list
     \<Rightarrow> OutgoingConfResult list \<Rightarrow> error + OutgoingConfResult list" where
  "pendingChangesLoop q w now index [] results = Inr results"
| "pendingChangesLoop q w now index (dump # rest) results =
     (case variant dump of
        MetaGroupConfig g \<Rightarrow> pendingChangesLoop q w now (Suc index) rest results
      | UserVariant v \<Rightarrow>
          (case needsPush q w v of
             Inl e \<Rightarrow> Inl e
           | Inr False \<Rightarrow> pendingChangesLoop q w now (Suc index) rest results
           | Inr True \<Rightarrow>
               (case push q w v of
                  Inl e \<Rightarrow> Inl e
                | Inr pr \<Rightarrow>
                    (case variantToKind (UserVariant v) of
                       Inl e \<Rightarrow> Inl e
                     | Inr k \<Rightarrow>
                         (case storageNamespace q w v of
                            Inl e \<Rightarrow> Inl e
                          | Inr ns \<Rightarrow>
                              pendingChangesLoop q w now (Suc index) rest
                                (results @
                                  [\<lparr> conf_message =
                                       \<lparr> data = push_data pr, kind = k,
                                         seqno = Long_fromNumber (push_seqno pr),
                                         timestamp = now index \<rparr>,
                                     conf_namespace = ns,
                                     oldMessageHashes = push_hashes pr \<rparr>]))))))"

text \<open>
  \<open>us\<close> is \<^verbatim>\<open>UserUtils.getOurPubKeyStrFromCache()\<close>, \<open>getAllDumpsWithoutData\<close> the
  outcome of the storage call.
\<close>

definition pendingChangesForPubkey ::
  "'w WrapperQueries \<Rightarrow> 'w \<Rightarrow> (nat \<Rightarrow> int) \<Rightarrow> string
     \<Rightarrow> (error + ConfigDumpRowWithoutData list) \<Rightarrow> string \<Rightarrow> error + OutgoingConfResult list" where
  "pendingChangesForPubkey q w now us getAllDumpsWithoutData pubkey =
     (case getAllDumpsWithoutData of
        Inl e \<Rightarrow> Inl e
      | Inr dumps \<Rightarrow> pendingChangesLoop q w now 0 (withRequiredVariants us pubkey dumps) [])"

text \<open>
  A concrete engine for evaluation: the state lists the dirty variants; every push
  returns sequence number 7 and two superseded hashes.
\<close>

definition demoQueries :: "(ConfigWrapperUser list) WrapperQueries" where
  "demoQueries =
     \<lparr> needsPush = (\<lambda>w v. Inr (v \<in> set w)),
       push = (\<lambda>w v. Inr \<lparr> push_data = [1, 2], push_seqno = 7, push_hashes = [''h1'', ''h2''] \<rparr>),
       storageNamespace = (\<lambda>w v. Inr 2) \<rparr>"


text \<open>
  Vocabulary of the statements about \<^verbatim>\<open>pendingChangesForPubkey\<close>.
  \<open>dirtyUserVariants\<close>: the user variants of the rows the engine reports dirty, one per
  row, in row order.  \<open>userVariantsOf\<close>: the user variants of the rows.
  \<open>carriesPush q w r v\<close>: result \<open>r\<close> is the one built from the engine's push of \<open>v\<close>.
  \<open>resultsFor v rs\<close>: the results of \<open>rs\<close> whose message has the wire kind of \<open>v\<close>.
  \<open>ownedDistinct us ds\<close>: no two rows of \<open>ds\<close> have the same user variant and every
  user-scoped row belongs to \<open>us\<close>.  \<open>neverRejects\<close>: every engine query resolves.
\<close>

fun dirtyUserVariants ::
  "'w WrapperQueries \<Rightarrow> 'w \<Rightarrow> ConfigDumpRowWithoutData list \<Rightarrow> ConfigWrapperUser list" where
  "dirtyUserVariants q w [] = []"
| "dirtyUserVariants q w (dump # rest) =
     (case variant dump of
        MetaGroupConfig g \<Rightarrow> dirtyUserVariants q w rest
      | UserVariant v \<Rightarrow>
          (if needsPush q w v = Inr True then v # dirtyUserVariants q w rest
           else dirtyUserVariants q w rest))"

fun userVariantsOf :: "ConfigDumpRowWithoutData list \<Rightarrow> ConfigWrapperUser list" where
  "userVariantsOf [] = []"
| "userVariantsOf (dump # rest) =
     (case variant dump of
        MetaGroupConfig g \<Rightarrow> userVariantsOf rest
      | UserVariant v \<Rightarrow> v # userVariantsOf rest)"

definition carriesPush ::
  "'w WrapperQueries \<Rightarrow> 'w \<Rightarrow> OutgoingConfResult \<Rightarrow> ConfigWrapperUser \<Rightarrow> bool" where
  "carriesPush q w r v =
     (case push q w v of
        Inl e \<Rightarrow> False
      | Inr pr \<Rightarrow>
          variantToKind (UserVariant v) = Inr (kind (conf_message r))
          \<and> seqno (conf_message r) = Long_fromNumber (push_seqno pr)
          \<and> data (conf_message r) = push_data pr
          \<and> oldMessageHashes r = push_hashes pr
          \<and> storageNamespace q w v = Inr (conf_namespace r))"

definition resultsFor :: "ConfigWrapperUser \<Rightarrow> OutgoingConfResult list \<Rightarrow> OutgoingConfResult list" where
  "resultsFor v rs = filter (\<lambda>r. variantToKind (UserVariant v) = Inr (kind (conf_message r))) rs"

definition ownedDistinct :: "string \<Rightarrow> ConfigDumpRowWithoutData list \<Rightarrow> bool" where
  "ownedDistinct us ds =
     (distinct (userVariantsOf ds)
      \<and> list_all (\<lambda>d. isUserConfigWrapperType (variant d) \<longrightarrow> publicKey d = us) ds)"

definition demoNow :: "nat \<Rightarrow> int" where
  "demoNow index = 1000 + int index"

definition neverRejects :: "'w WrapperQueries \<Rightarrow> 'w \<Rightarrow> bool" where
  "neverRejects q w =
     (\<forall>v. (\<exists>b. needsPush q w v = Inr b) \<and> (\<exists>pr. push q w v = Inr pr)
          \<and> (\<exists>ns. storageNamespace q w v = Inr ns))"

section \<open>LibSessionUtil: initializeLibSessionUtilWrappers\<close>

text \<open>A stored dump with its bytes (the field \<^verbatim>\<open>data\<close> of the source is \<open>dumpData\<close>).\<close>

record ConfigDumpRow = ConfigDumpRowWithoutData +
  dumpData :: bytes

text \<open>
  The account's key pair; \<^verbatim>\<open>!keypair || !keypair.privKeyBytes\<close> is \<open>privKeyOf keypair = None\<close>.
\<close>

record KeyPairBytes =
  pubKeyBytes :: bytes
  privKeyBytes :: "bytes option"

text \<open>What \<^verbatim>\<open>UserGroupsWrapperActions.getGroup\<close> finds: of the group's entry, the admin key.\<close>

record UserGroupsGet =
  secretKey :: "bytes option"

text \<open>The options object passed to \<^verbatim>\<open>MetaGroupWrapperActions.init\<close>.\<close>

record MetaGroupInitArgs =
  groupEd25519Pubkey :: bytes
  groupEd25519Secretkey :: "bytes option"
  userEd25519Secretkey :: bytes
  metaDumped :: bytes

text \<open>
  The collaborators of the initialization, as parameters: the outcome of each awaited call
  is a function of the call's arguments, \<open>Inl\<close> when the promise rejects.
  \<open>genericInit\<close>, \<open>genericDump\<close> are \<^verbatim>\<open>GenericWrapperActions.init\<close> and
  \<^verbatim>\<open>.dump\<close>, \<open>metaGroupInit\<close> is \<^verbatim>\<open>MetaGroupWrapperActions.init\<close>,
  \<open>fromHexString\<close> is \<^verbatim>\<open>HexString.fromHexString\<close>; \<open>toFixedUint8ArrayOfLength\<close>
  checks the length of an array and raises when it is not the one asked for.
\<close>

record InitEnv =
  getUserED25519KeyPairBytes :: "error + KeyPairBytes option"
  getAllDumpsWithData :: "error + ConfigDumpRow list"
  genericInit :: "ConfigWrapperUser \<Rightarrow> bytes \<Rightarrow> bytes option \<Rightarrow> error + unit"
  genericDump :: "ConfigWrapperUser \<Rightarrow> error + bytes"
  saveConfigDump :: "ConfigDumpRow \<Rightarrow> error + unit"
  getOurPubKeyStrFromCache :: string
  fromHexString :: "string \<Rightarrow> error + bytes"
  getGroup :: "string \<Rightarrow> error + UserGroupsGet option"
  metaGroupInit :: "string \<Rightarrow> MetaGroupInitArgs \<Rightarrow> error + unit"
  toFixedUint8ArrayOfLength :: "bytes \<Rightarrow> nat \<Rightarrow> error + bytes"

text \<open>
  The calls made on the collaborators and the warnings logged, in order.  The
  \<^verbatim>\<open>info\<close> and \<^verbatim>\<open>debug\<close> log lines and the \<^verbatim>\<open>setTimeout\<close> (whose callback
  only reads \<^verbatim>\<open>ConfigurationSync.queueNewJobIfNeeded\<close>) are left out.
\<close>

datatype init_event =
  GenericInit ConfigWrapperUser bytes "bytes option"
  | GenericDump ConfigWrapperUser
  | SaveConfigDump ConfigDumpRow
  | GetGroup string
  | MetaGroupInit string MetaGroupInitArgs
  | WarnUserInitFailed error
  | WarnMissingRequiredVariant ConfigWrapperUser
  | WarnGroupInitFailed ConfigWrapperObjectTypes error

definition privKeyOf :: "KeyPairBytes option \<Rightarrow> bytes option" where
  "privKeyOf keypair = (case keypair of None \<Rightarrow> None | Some kp \<Rightarrow> privKeyBytes kp)"

text \<open>
  The first loop: every user-scoped dump is loaded into its wrapper.  The \<^verbatim>\<open>catch\<close>
  logs a warning and raises a new error, which leaves the function.
  \<open>built\<close> is \<^verbatim>\<open>userVariantsBuildWithoutErrors\<close>.
\<close>

fun loadUserDumps ::
  "InitEnv \<Rightarrow> bytes \<Rightarrow> ConfigDumpRow list \<Rightarrow> ConfigWrapperUser list
     \<Rightarrow> (error + ConfigWrapperUser list) \<times> init_event list" where
  "loadUserDumps env privateKeyEd25519 [] built = (Inr built, [])"
| "loadUserDumps env privateKeyEd25519 (dump # rest) built =
     (case variant dump of
        MetaGroupConfig g \<Rightarrow> loadUserDumps env privateKeyEd25519 rest built
      | UserVariant v \<Rightarrow>
          (let arg = (if length (dumpData dump) \<noteq> 0 then Some (dumpData dump) else None) in
           case genericInit env v privateKeyEd25519 arg of
             Inr u \<Rightarrow>
               (case loadUserDumps env privateKeyEd25519 rest (List.insert v built) of
                  (r, tr) \<Rightarrow> (r, GenericInit v privateKeyEd25519 arg # tr))
           | Inl e \<Rightarrow>
               (Inl (InitializeFailedWith e),
                [GenericInit v privateKeyEd25519 arg, WarnUserInitFailed e])))"

text \<open>\<^verbatim>\<open>difference\<close> of lodash: the members of the first array that are not in the second.\<close>

definition difference :: "'a list \<Rightarrow> 'a list \<Rightarrow> 'a list" where
  "difference xs ys = filter (\<lambda>x. x \<notin> set ys) xs"

text \<open>
  The second loop: each missing required variant is initialised without a dump, dumped
  and saved.  None of the three awaited calls is inside a \<^verbatim>\<open>try\<close>.
\<close>

fun createMissingVariants ::
  "InitEnv \<Rightarrow> bytes \<Rightarrow> ConfigWrapperUser list \<Rightarrow> (error + unit) \<times> init_event list" where
  "createMissingVariants env privateKeyEd25519 [] = (Inr (), [])"
| "createMissingVariants env privateKeyEd25519 (missingVariant # rest) =
     (case genericInit env missingVariant privateKeyEd25519 None of
        Inl e \<Rightarrow>
          (Inl e, [WarnMissingRequiredVariant missingVariant,
                   GenericInit missingVariant privateKeyEd25519 None])
      | Inr u \<Rightarrow>
          (case genericDump env missingVariant of
             Inl e \<Rightarrow>
               (Inl e, [WarnMissingRequiredVariant missingVariant,
                        GenericInit missingVariant privateKeyEd25519 None,
                        GenericDump missingVariant])
           | Inr dump \<Rightarrow>
               (let row = \<lparr> publicKey = getOurPubKeyStrFromCache env,
                             variant = UserVariant missingVariant, dumpData = dump \<rparr> in
                case saveConfigDump env row of
                  Inl e \<Rightarrow>
                    (Inl e, [WarnMissingRequiredVariant missingVariant,
                             GenericInit missingVariant privateKeyEd25519 None,
                             GenericDump missingVariant, SaveConfigDump row])
                | Inr u' \<Rightarrow>
                    (case createMissingVariants env privateKeyEd25519 rest of
                       (r, tr) \<Rightarrow>
                         (r, [WarnMissingRequiredVariant missingVariant,
                              GenericInit missingVariant privateKeyEd25519 None,
                              GenericDump missingVariant, SaveConfigDump row] @ tr)))))"

text \<open>The body of the \<^verbatim>\<open>try\<close> block of the third loop.\<close>

definition initGroupFromDump ::
  "InitEnv \<Rightarrow> bytes \<Rightarrow> string \<Rightarrow> bytes \<Rightarrow> bytes \<Rightarrow> (error + unit) \<times> init_event list" where
  "initGroupFromDump env userPrivKey groupPk groupPubkeyBytes metaDump =
     (case getGroup env groupPk of
        Inl e \<Rightarrow> (Inl e, [GetGroup groupPk])
      | Inr foundInUserGroups \<Rightarrow>
          (case toFixedUint8ArrayOfLength env groupPubkeyBytes 32 of
             Inl e \<Rightarrow> (Inl e, [GetGroup groupPk])
           | Inr pk32 \<Rightarrow>
               (case toFixedUint8ArrayOfLength env userPrivKey 64 of
                  Inl e \<Rightarrow> (Inl e, [GetGroup groupPk])
                | Inr sk64 \<Rightarrow>
                    (let args = \<lparr> groupEd25519Pubkey = pk32,
                                   groupEd25519Secretkey =
                                     (case foundInUserGroups of
                                        None \<Rightarrow> None
                                      | Some grp \<Rightarrow> secretKey grp),
                                   userEd25519Secretkey = sk64,
                                   metaDumped = metaDump \<rparr> in
                     (metaGroupInit env groupPk args,
                      [GetGroup groupPk, MetaGroupInit groupPk args])))))"

text \<open>
  The third loop: every group dump is loaded.  \<^verbatim>\<open>HexString.fromHexString\<close> runs before
  the \<^verbatim>\<open>try\<close>; the \<^verbatim>\<open>catch\<close> logs a warning and the loop goes on.
\<close>

fun loadGroupDumps ::
  "InitEnv \<Rightarrow> bytes \<Rightarrow> ConfigDumpRow list \<Rightarrow> (error + unit) \<times> init_event list" where
  "loadGroupDumps env userPrivKey [] = (Inr (), [])"
| "loadGroupDumps env userPrivKey (dump # rest) =
     (case variant dump of
        UserVariant v \<Rightarrow> loadGroupDumps env userPrivKey rest
      | MetaGroupConfig groupPk \<Rightarrow>
          (case fromHexString env (drop 2 groupPk) of
             Inl e \<Rightarrow> (Inl e, [])
           | Inr groupPubkeyBytes \<Rightarrow>
               (case initGroupFromDump env userPrivKey groupPk groupPubkeyBytes (dumpData dump) of
                  (Inr u, tr) \<Rightarrow>
                    (case loadGroupDumps env userPrivKey rest of
                       (r, tr') \<Rightarrow> (r, tr @ tr'))
                | (Inl e, tr) \<Rightarrow>
                    (case loadGroupDumps env userPrivKey rest of
                       (r, tr') \<Rightarrow>
                         (r, tr @ [WarnGroupInitFailed (variant dump) e] @ tr')))))"

text \<open>The whole function: its outcome and the events, in order.\<close>

definition initializeLibSessionUtilWrappers :: "InitEnv \<Rightarrow> (error + unit) \<times> init_event list" where
  "initializeLibSessionUtilWrappers env =
     (case getUserED25519KeyPairBytes env of
        Inl e \<Rightarrow> (Inl e, [])
      | Inr keypair \<Rightarrow>
          (case privKeyOf keypair of
             None \<Rightarrow> (Inl (Error ''edkeypair not found for current user''), [])
           | Some privateKeyEd25519 \<Rightarrow>
               (case getAllDumpsWithData env of
                  Inl e \<Rightarrow> (Inl e, [])
                | Inr dumps \<Rightarrow>
                    (case loadUserDumps env privateKeyEd25519 dumps [] of
                       (Inl e, tr1) \<Rightarrow> (Inl e, tr1)
                     | (Inr userVariantsBuildWithoutErrors, tr1) \<Rightarrow>
                         (case createMissingVariants env privateKeyEd25519
                                 (difference requiredUserVariants userVariantsBuildWithoutErrors) of
                            (Inl e, tr2) \<Rightarrow> (Inl e, tr1 @ tr2)
                          | (Inr u, tr2) \<Rightarrow>
                              (case getUserED25519KeyPairBytes env of
                                 Inl e \<Rightarrow> (Inl e, tr1 @ tr2)
                               | Inr ed25519KeyPairBytes \<Rightarrow>
                                   (case privKeyOf ed25519KeyPairBytes of
                                      None \<Rightarrow>
                                        (Inl (Error ''user has no ed25519KeyPairBytes.''), tr1 @ tr2)
                                    | Some userPrivKey \<Rightarrow>
                                        (case loadGroupDumps env userPrivKey dumps of
                                           (r, tr3) \<Rightarrow> (r, tr1 @ tr2 @ tr3)))))))))"


text \<open>
  Vocabulary of the statements.  \<open>groupsOf\<close>: the groups that have a dump, in row order.
  \<open>groupsAttempted\<close>: the groups whose loading was started, read off the events.
  \<open>hexDecodes\<close>: the pubkey of every group with a dump decodes.  \<open>initArg\<close>: the dump
  argument of \<^verbatim>\<open>GenericWrapperActions.init\<close>.
\<close>

fun groupsOf :: "ConfigDumpRow list \<Rightarrow> string list" where
  "groupsOf [] = []"
| "groupsOf (dump # rest) =
     (case variant dump of
        UserVariant v \<Rightarrow> groupsOf rest
      | MetaGroupConfig groupPk \<Rightarrow> groupPk # groupsOf rest)"

fun groupsAttempted :: "init_event list \<Rightarrow> string list" where
  "groupsAttempted [] = []"
| "groupsAttempted (GetGroup groupPk # tr) = groupPk # groupsAttempted tr"
| "groupsAttempted (ev # tr) = groupsAttempted tr"

definition hexDecodes :: "InitEnv \<Rightarrow> ConfigDumpRow list \<Rightarrow> bool" where
  "hexDecodes env dumps = list_all (\<lambda>g. \<not> isl (fromHexString env (drop 2 g))) (groupsOf dumps)"

definition initArg :: "ConfigDumpRow \<Rightarrow> bytes option" where
  "initArg dump = (if length (dumpData dump) \<noteq> 0 then Some (dumpData dump) else None)"

text \<open>
  A concrete run for evaluation: two user dumps and two group dumps are stored;
  \<open>badVariants\<close> are the user variants whose \<open>init\<close> rejects, \<open>badGroups\<close> the groups
  whose \<open>init\<close> rejects.
\<close>

definition demoKey :: bytes where
  "demoKey = replicate 64 7"

definition demoDumps :: "ConfigDumpRow list" where
  "demoDumps =
     [\<lparr> publicKey = ''05alice'', variant = UserVariant UserConfig, dumpData = [9] \<rparr>,
      \<lparr> publicKey = ''05alice'', variant = UserVariant ContactsConfig, dumpData = [] \<rparr>,
      \<lparr> publicKey = ''03g1'', variant = MetaGroupConfig ''03g1'', dumpData = [4] \<rparr>,
      \<lparr> publicKey = ''03g2'', variant = MetaGroupConfig ''03g2'', dumpData = [5] \<rparr>]"

definition demoInitEnv :: "ConfigWrapperUser list \<Rightarrow> string list \<Rightarrow> InitEnv" where
  "demoInitEnv badVariants badGroups =
     \<lparr> getUserED25519KeyPairBytes = Inr (Some \<lparr> pubKeyBytes = [1], privKeyBytes = Some demoKey \<rparr>),
       getAllDumpsWithData = Inr demoDumps,
       genericInit = (\<lambda>v k d. if v \<in> set badVariants then Inl (Error ''corrupt dump'') else Inr ()),
       genericDump = (\<lambda>v. Inr []),
       saveConfigDump = (\<lambda>row. Inr ()),
       getOurPubKeyStrFromCache = ''05alice'',
       fromHexString = (\<lambda>s. Inr (replicate 32 0)),
       getGroup = (\<lambda>g. Inr None),
       metaGroupInit = (\<lambda>g args. if g \<in> set badGroups then Inl (Error ''bad group dump'') else Inr ()),
       toFixedUint8ArrayOfLength =
         (\<lambda>d n. if length d = n then Inr d else Inl (Error ''unexpected length'')) \<rparr>"

text \<open>
  The run in which the first group's \<open>init\<close> rejects and the pubkey of the second group
  does not decode.
\<close>

definition demoBadHexEnv :: InitEnv where
  "demoBadHexEnv =
     (demoInitEnv [] [''03g1''])
       \<lparr> fromHexString := (\<lambda>s. if s = ''g2'' then Inl (Error ''bad hex'') else Inr (replicate 32 0)) \<rparr>"

section \<open>MessageQueue: messages, collaborators and events\<close>

text \<open>A \<^verbatim>\<open>PubKey\<close> wraps its key string.\<close>

datatype PubKey = PubKey (key: string)

text \<open>
  An outgoing message: the class tested by \<^verbatim>\<open>instanceof\<close>, the identifier (the field
  \<^verbatim>\<open>identifier\<close> of the source) and the \<^verbatim>\<open>syncTarget\<close> that sync messages carry.
  An open-group message may carry a reaction.
\<close>

datatype MessageClass =
  UnsendMessage
  | ClosedGroupNewMessage
  | ExpirationTimerUpdateMessage
  | ClosedGroupMessage
  | VisibleMessage
  | OtherContentMessage

record ContentMessage =
  msg_identifier :: string
  messageClass :: MessageClass
  syncTarget :: "string option"

type_synonym Reaction = string

record OpenGroupVisibleMessage = ContentMessage +
  reaction :: "Reaction option"

record OpenGroupRequestCommonType =
  serverUrl :: string
  roomId :: string

text \<open>
  What the open-group transport resolves to: the server-assigned id and the timestamp,
  each possibly absent.  The blinded request names the timestamp \<^verbatim>\<open>serverTimestamp\<close>.
\<close>

record OpenGroupMessageV2 =
  serverId :: "int option"
  sentTimestamp :: "int option"

text \<open>
  A message as the pending cache and the transport hold it (\<open>raw_identifier\<close> is its
  \<^verbatim>\<open>identifier\<close>), and what \<^verbatim>\<open>MessageSender.send\<close> resolves to.
\<close>

record OutgoingRawMessage =
  raw_identifier :: string
  device :: string
  plainTextBuffer :: bytes
  raw_namespace :: int

record SendResult =
  wrappedEnvelope :: bytes
  effectiveTimestamp :: int

text \<open>
  The calls the queue makes on the transport, the handlers of
  \<^verbatim>\<open>MessageSentHandler\<close>, the per-message callback and the cache's
  \<^verbatim>\<open>callbacks.delete\<close> and \<^verbatim>\<open>remove\<close>, and the lines it logs, in order.
\<close>

datatype mq_event =
  SendSogsReaction string string Reaction bool
  | SendToOpenGroupV2 OpenGroupVisibleMessage OpenGroupRequestCommonType bool "nat list"
  | SendToOpenGroupV2BlindedRequest bytes OpenGroupRequestCommonType string
  | HandlePublicMessageSentSuccess string int "int option"
  | HandleOpenGroupSentFailure OpenGroupVisibleMessage error
  | WarnFailedOpenGroup OpenGroupRequestCommonType error
  | Send OutgoingRawMessage bool
  | HandleMessageSentSuccess OutgoingRawMessage int bytes
  | HandleMessageSentFailure OutgoingRawMessage error
  | SentCb OutgoingRawMessage
  | CallbacksDelete string
  | CacheRemove OutgoingRawMessage
  | InfoProcessingSyncMessage
  | WarnDroppingMessageToOurself

text \<open>
  The collaborators of the open-group sends, as parameters: the outcome of each awaited
  call is a function of its arguments, \<open>Inl\<close> when the promise rejects.
  \<open>senderSendToOpenGroupV2\<close> and \<open>senderSendToOpenGroupV2BlindedRequest\<close> are the
  functions of \<^verbatim>\<open>MessageSender\<close>; \<open>handleOpenGroupSentFailure\<close> is
  \<^verbatim>\<open>MessageSentHandler.handleMessageSentFailure\<close> on an open-group message.
\<close>

record OpenGroupEnv =
  sendSogsReactionOnionV4 :: "string \<Rightarrow> string \<Rightarrow> Reaction \<Rightarrow> bool \<Rightarrow> error + bool"
  senderSendToOpenGroupV2 ::
    "OpenGroupVisibleMessage \<Rightarrow> OpenGroupRequestCommonType \<Rightarrow> bool \<Rightarrow> nat list
       \<Rightarrow> error + OpenGroupMessageV2"
  senderSendToOpenGroupV2BlindedRequest ::
    "bytes \<Rightarrow> OpenGroupRequestCommonType \<Rightarrow> string \<Rightarrow> error + OpenGroupMessageV2"
  isBlinded :: "string \<Rightarrow> bool"
  handlePublicMessageSentSuccess :: "string \<Rightarrow> int \<Rightarrow> int option \<Rightarrow> error + unit"
  handleOpenGroupSentFailure :: "OpenGroupVisibleMessage \<Rightarrow> error \<Rightarrow> error + unit"

section \<open>MessageQueue: sending to open groups\<close>

text \<open>
  The \<^verbatim>\<open>catch\<close> block of both open-group sends: a warning, then the failure handler,
  awaited, so that its rejection is the send's.  A caught error is an object, so
  \<^verbatim>\<open>e || new Error(...)\<close> is \<open>e\<close>.
\<close>

definition openGroupSendFailed ::
  "OpenGroupEnv \<Rightarrow> OpenGroupVisibleMessage \<Rightarrow> OpenGroupRequestCommonType \<Rightarrow> error
     \<Rightarrow> mq_event list \<Rightarrow> (error + unit) \<times> mq_event list" where
  "openGroupSendFailed env msg roomInfos e tr =
     (handleOpenGroupSentFailure env msg e,
      tr @ [WarnFailedOpenGroup roomInfos e, HandleOpenGroupSentFailure msg e])"

text \<open>
  What both sends do with the transport's answer:
  \<^verbatim>\<open>if (!serverId || serverId === -1) throw\<close>, then the success handler.
  \<^verbatim>\<open>!serverId\<close> holds of an absent id and of 0.
\<close>

definition openGroupSent ::
  "OpenGroupEnv \<Rightarrow> OpenGroupVisibleMessage \<Rightarrow> OpenGroupRequestCommonType \<Rightarrow> OpenGroupMessageV2
     \<Rightarrow> mq_event list \<Rightarrow> (error + unit) \<times> mq_event list" where
  "openGroupSent env msg roomInfos result tr =
     (case serverId result of
        None \<Rightarrow> openGroupSendFailed env msg roomInfos (InvalidServerIdError None) tr
      | Some sid \<Rightarrow>
          (if sid = 0 \<or> sid = - 1
           then openGroupSendFailed env msg roomInfos (InvalidServerIdError (Some sid)) tr
           else (case handlePublicMessageSentSuccess env (msg_identifier msg) sid
                        (sentTimestamp result) of
                   Inr u \<Rightarrow>
                     (Inr (), tr @ [HandlePublicMessageSentSuccess (msg_identifier msg) sid
                                      (sentTimestamp result)])
                 | Inl e \<Rightarrow>
                     openGroupSendFailed env msg roomInfos e
                       (tr @ [HandlePublicMessageSentSuccess (msg_identifier msg) sid
                                (sentTimestamp result)]))))"

definition sendToOpenGroupV2 ::
  "OpenGroupEnv \<Rightarrow> OpenGroupVisibleMessage \<Rightarrow> OpenGroupRequestCommonType \<Rightarrow> bool \<Rightarrow> nat list
     \<Rightarrow> (error + unit) \<times> mq_event list" where
  "sendToOpenGroupV2 env msg roomInfos blinded filesToLink =
     (case reaction msg of
        Some r \<Rightarrow>
          (case sendSogsReactionOnionV4 env (serverUrl roomInfos) (roomId roomInfos) r blinded of
             Inr b \<Rightarrow>
               (Inr (), [SendSogsReaction (serverUrl roomInfos) (roomId roomInfos) r blinded])
           | Inl e \<Rightarrow>
               openGroupSendFailed env msg roomInfos e
                 [SendSogsReaction (serverUrl roomInfos) (roomId roomInfos) r blinded])
      | None \<Rightarrow>
          (case senderSendToOpenGroupV2 env msg roomInfos blinded filesToLink of
             Inl e \<Rightarrow>
               openGroupSendFailed env msg roomInfos e
                 [SendToOpenGroupV2 msg roomInfos blinded filesToLink]
           | Inr result \<Rightarrow>
               openGroupSent env msg roomInfos result
                 [SendToOpenGroupV2 msg roomInfos blinded filesToLink]))"

definition sendToOpenGroupV2BlindedRequest ::
  "OpenGroupEnv \<Rightarrow> bytes \<Rightarrow> OpenGroupVisibleMessage \<Rightarrow> string \<Rightarrow> OpenGroupRequestCommonType
     \<Rightarrow> (error + unit) \<times> mq_event list" where
  "sendToOpenGroupV2BlindedRequest env encryptedContent msg recipientBlindedId roomInfos =
     (if \<not> isBlinded env recipientBlindedId
      then openGroupSendFailed env msg roomInfos
             (Error ''sendToOpenGroupV2BlindedRequest needs a blindedId'') []
      else (case senderSendToOpenGroupV2BlindedRequest env encryptedContent roomInfos
                   recipientBlindedId of
              Inl e \<Rightarrow>
                openGroupSendFailed env msg roomInfos e
                  [SendToOpenGroupV2BlindedRequest encryptedContent roomInfos recipientBlindedId]
            | Inr result \<Rightarrow>
                openGroupSent env msg roomInfos result
                  [SendToOpenGroupV2BlindedRequest encryptedContent roomInfos recipientBlindedId]))"


section \<open>MessageQueue: the pending cache and the job queues\<close>

text \<open>
  A per-message callback \<^verbatim>\<open>sentCb\<close>: the outcome of awaiting it.  Of the pending
  cache the source reads and writes the map \<^verbatim>\<open>callbacks\<close>; the rest of its state is a
  value of an arbitrary type \<open>'c\<close>, touched only through the cache's own methods.
\<close>

type_synonym Callback = "OutgoingRawMessage \<Rightarrow> error + unit"

record 'c PendingMessageCache =
  callbacks :: "string \<rightharpoonup> Callback"
  stored :: 'c

text \<open>
  The job that \<^verbatim>\<open>processPending\<close> builds is a closure over the message and
  \<^verbatim>\<open>isSyncMessage\<close>; \<open>runJob\<close> below is its body.
\<close>

record Job =
  jobMessage :: OutgoingRawMessage
  jobIsSyncMessage :: bool

text \<open>
  Modelled from the spec: \<^verbatim>\<open>JobQueue\<close> is not among the sources.  A queue holds its
  outstanding jobs in enqueue order, each under its identifier.
\<close>

type_synonym JobQueue = "(string \<times> Job) list"

text \<open>
  Modelled from the spec: \<^verbatim>\<open>JobQueue.has\<close> is not among the sources.  It tells whether
  an identifier is present in the queue.
\<close>

definition has :: "JobQueue \<Rightarrow> string \<Rightarrow> bool" where
  "has q jobId = (jobId \<in> fst ` set q)"

text \<open>
  Modelled from the spec: \<^verbatim>\<open>JobQueue.addWithId\<close> is not among the sources.  It
  enqueues the job unless the identifier is already present.
\<close>

definition addWithId :: "JobQueue \<Rightarrow> string \<Rightarrow> Job \<Rightarrow> JobQueue" where
  "addWithId q jobId job = (if has q jobId then q else q @ [(jobId, job)])"

text \<open>The fields of the \<^verbatim>\<open>MessageQueue\<close> object.\<close>

record 'c MessageQueue =
  jobQueues :: "string \<rightharpoonup> JobQueue"
  pendingMessageCache :: "'c PendingMessageCache"

text \<open>
  The collaborators of the queue, as parameters.  \<open>send\<close> is \<^verbatim>\<open>MessageSender.send\<close>
  with its \<^verbatim>\<open>isSyncMessage\<close> argument (\<open>False\<close> when the source passes none);
  \<open>ourPubKeyFromCache\<close> and \<open>ourPubKeyStrFromCache\<close> are the two getters of
  \<^verbatim>\<open>UserUtils\<close>; \<open>isSyncMessage\<close> is \<^verbatim>\<open>MessageSender.isSyncMessage\<close>;
  \<open>getForDevice\<close>, \<open>cacheAdd\<close> and \<open>cacheRemove\<close> are the methods
  \<^verbatim>\<open>getForDevice\<close>, \<^verbatim>\<open>add\<close> and \<^verbatim>\<open>remove\<close> of the pending cache;
  \<open>isEqual\<close> and \<open>PubKey_cast\<close> are \<^verbatim>\<open>PubKey.isEqual\<close> and \<^verbatim>\<open>PubKey.cast\<close>, which
  raises on a string that is no key.
\<close>

record 'c QueueEnv =
  toRawMessage :: "PubKey \<Rightarrow> ContentMessage \<Rightarrow> int \<Rightarrow> error + OutgoingRawMessage"
  send :: "OutgoingRawMessage \<Rightarrow> bool \<Rightarrow> error + SendResult"
  handleMessageSentSuccess :: "OutgoingRawMessage \<Rightarrow> int \<Rightarrow> bytes \<Rightarrow> error + unit"
  handleMessageSentFailure :: "OutgoingRawMessage \<Rightarrow> error \<Rightarrow> error + unit"
  ourPubKeyFromCache :: "PubKey option"
  ourPubKeyStrFromCache :: string
  isSyncMessage :: "ContentMessage \<Rightarrow> bool"
  getForDevice :: "'c PendingMessageCache \<Rightarrow> PubKey \<Rightarrow> error + OutgoingRawMessage list"
  cacheAdd ::
    "'c PendingMessageCache \<Rightarrow> PubKey \<Rightarrow> ContentMessage \<Rightarrow> int \<Rightarrow> Callback option \<Rightarrow> bool
       \<Rightarrow> error + 'c PendingMessageCache"
  cacheRemove :: "'c PendingMessageCache \<Rightarrow> OutgoingRawMessage \<Rightarrow> 'c PendingMessageCache"
  isEqual :: "PubKey \<Rightarrow> PubKey \<Rightarrow> bool"
  PubKey_cast :: "string \<Rightarrow> error + PubKey"

text \<open>JavaScript truthiness of an optional string.\<close>

definition truthy :: "string option \<Rightarrow> bool" where
  "truthy s = (case s of None \<Rightarrow> False | Some t \<Rightarrow> t \<noteq> [])"

section \<open>MessageQueue: sending without the cache\<close>

text \<open>
  \<^verbatim>\<open>rawMessage\<close> is assigned inside the \<^verbatim>\<open>try\<close>; the \<^verbatim>\<open>catch\<close> calls the
  failure handler only \<^verbatim>\<open>if (rawMessage)\<close> and returns \<^verbatim>\<open>null\<close>.
\<close>

definition sendToPubKeyNonDurably ::
  "'c QueueEnv \<Rightarrow> PubKey \<Rightarrow> ContentMessage \<Rightarrow> int \<Rightarrow> (error + int option) \<times> mq_event list" where
  "sendToPubKeyNonDurably env pubkey msg ns =
     (case toRawMessage env pubkey msg ns of
        Inl e \<Rightarrow> (Inr None, [])
      | Inr rawMessage \<Rightarrow>
          (case send env rawMessage False of
             Inl e \<Rightarrow>
               (case handleMessageSentFailure env rawMessage e of
                  Inl e' \<Rightarrow> (Inl e', [Send rawMessage False, HandleMessageSentFailure rawMessage e])
                | Inr u \<Rightarrow> (Inr None, [Send rawMessage False, HandleMessageSentFailure rawMessage e]))
           | Inr r \<Rightarrow>
               (case handleMessageSentSuccess env rawMessage (effectiveTimestamp r)
                       (wrappedEnvelope r) of
                  Inr u \<Rightarrow>
                    (Inr (Some (effectiveTimestamp r)),
                     [Send rawMessage False,
                      HandleMessageSentSuccess rawMessage (effectiveTimestamp r) (wrappedEnvelope r)])
                | Inl e \<Rightarrow>
                    (case handleMessageSentFailure env rawMessage e of
                       Inl e' \<Rightarrow>
                         (Inl e',
                          [Send rawMessage False,
                           HandleMessageSentSuccess rawMessage (effectiveTimestamp r)
                             (wrappedEnvelope r),
                           HandleMessageSentFailure rawMessage e])
                     | Inr u \<Rightarrow>
                         (Inr None,
                          [Send rawMessage False,
                           HandleMessageSentSuccess rawMessage (effectiveTimestamp r)
                             (wrappedEnvelope r),
                           HandleMessageSentFailure rawMessage e])))))"

section \<open>MessageQueue: processPending, process and sendSyncMessage\<close>

text \<open>
  The body of a job.  In the \<^verbatim>\<open>try\<close>: the send, the success handler, the callback if
  one is registered, \<^verbatim>\<open>callbacks.delete\<close>.  In the \<^verbatim>\<open>catch\<close>: the failure handler,
  not awaited.  In the \<^verbatim>\<open>finally\<close>: the cache's \<^verbatim>\<open>remove\<close>, not awaited.  The result
  is the cache afterwards and the events.
\<close>

definition runJob ::
  "'c QueueEnv \<Rightarrow> 'c PendingMessageCache \<Rightarrow> Job \<Rightarrow> 'c PendingMessageCache \<times> mq_event list" where
  "runJob env cache job =
     (let msg = jobMessage job;
          deleted = cache\<lparr> callbacks := (callbacks cache)(raw_identifier msg := None) \<rparr>
      in case send env msg (jobIsSyncMessage job) of
           Inl e \<Rightarrow>
             (cacheRemove env cache msg,
              [Send msg (jobIsSyncMessage job), HandleMessageSentFailure msg e, CacheRemove msg])
         | Inr r \<Rightarrow>
             (case handleMessageSentSuccess env msg (effectiveTimestamp r) (wrappedEnvelope r) of
                Inl e \<Rightarrow>
                  (cacheRemove env cache msg,
                   [Send msg (jobIsSyncMessage job),
                    HandleMessageSentSuccess msg (effectiveTimestamp r) (wrappedEnvelope r),
                    HandleMessageSentFailure msg e, CacheRemove msg])
              | Inr u \<Rightarrow>
                  (case callbacks cache (raw_identifier msg) of
                     None \<Rightarrow>
                       (cacheRemove env deleted msg,
                        [Send msg (jobIsSyncMessage job),
                         HandleMessageSentSuccess msg (effectiveTimestamp r) (wrappedEnvelope r),
                         CallbacksDelete (raw_identifier msg), CacheRemove msg])
                   | Some cb \<Rightarrow>
                       (case cb msg of
                          Inl e \<Rightarrow>
                            (cacheRemove env cache msg,
                             [Send msg (jobIsSyncMessage job),
                              HandleMessageSentSuccess msg (effectiveTimestamp r) (wrappedEnvelope r),
                              SentCb msg, HandleMessageSentFailure msg e, CacheRemove msg])
                        | Inr u' \<Rightarrow>
                            (cacheRemove env deleted msg,
                             [Send msg (jobIsSyncMessage job),
                              HandleMessageSentSuccess msg (effectiveTimestamp r) (wrappedEnvelope r),
                              SentCb msg, CallbacksDelete (raw_identifier msg),
                              CacheRemove msg])))))"

text \<open>
  \<^verbatim>\<open>getJobQueue\<close> finds or creates the queue of a device; \<open>enqueuePending\<close> is the body
  of \<^verbatim>\<open>messages.forEach\<close>, which runs up to \<^verbatim>\<open>addWithId\<close> before the next message
  is looked at.  \<^verbatim>\<open>processPending\<close> rejects when \<^verbatim>\<open>getForDevice\<close> does.
\<close>

definition getJobQueue :: "'c MessageQueue \<Rightarrow> PubKey \<Rightarrow> JobQueue" where
  "getJobQueue st dev = (case jobQueues st (key dev) of None \<Rightarrow> [] | Some queue \<Rightarrow> queue)"

definition enqueuePending :: "bool \<Rightarrow> JobQueue \<Rightarrow> OutgoingRawMessage \<Rightarrow> JobQueue" where
  "enqueuePending isSync jobQueue msg =
     (if \<not> has jobQueue (raw_identifier msg)
      then addWithId jobQueue (raw_identifier msg) \<lparr> jobMessage = msg, jobIsSyncMessage = isSync \<rparr>
      else jobQueue)"

definition processPending ::
  "'c QueueEnv \<Rightarrow> 'c MessageQueue \<Rightarrow> PubKey \<Rightarrow> bool \<Rightarrow> (error + unit) \<times> 'c MessageQueue" where
  "processPending env st dev isSync =
     (case getForDevice env (pendingMessageCache st) dev of
        Inl e \<Rightarrow> (Inl e, st)
      | Inr messages \<Rightarrow>
          (Inr (),
           st\<lparr> jobQueues := (jobQueues st)
                 (key dev \<mapsto> foldl (enqueuePending isSync) (getJobQueue st dev) messages) \<rparr>))"

text \<open>
  The last two statements of \<^verbatim>\<open>process\<close>: the awaited \<^verbatim>\<open>add\<close>, whose rejection is
  the caller's, and \<^verbatim>\<open>void this.processPending(...)\<close>, whose outcome is dropped.
\<close>

definition admit ::
  "'c QueueEnv \<Rightarrow> 'c MessageQueue \<Rightarrow> PubKey \<Rightarrow> ContentMessage \<Rightarrow> int \<Rightarrow> Callback option \<Rightarrow> bool
     \<Rightarrow> bool \<Rightarrow> mq_event list \<Rightarrow> (error + unit) \<times> 'c MessageQueue \<times> mq_event list" where
  "admit env st destinationPk msg ns sentCb isGroup isSync logged =
     (case cacheAdd env (pendingMessageCache st) destinationPk msg ns sentCb isGroup of
        Inl e \<Rightarrow> (Inl e, st, logged)
      | Inr cache \<Rightarrow>
          (Inr (),
           snd (processPending env (st\<lparr> pendingMessageCache := cache \<rparr>) destinationPk isSync),
           logged))"

definition process ::
  "'c QueueEnv \<Rightarrow> 'c MessageQueue \<Rightarrow> PubKey \<Rightarrow> ContentMessage \<Rightarrow> int \<Rightarrow> Callback option \<Rightarrow> bool
     \<Rightarrow> (error + unit) \<times> 'c MessageQueue \<times> mq_event list" where
  "process env st destinationPk msg ns sentCb isGroup =
     (case ourPubKeyFromCache env of
        None \<Rightarrow> admit env st destinationPk msg ns sentCb isGroup False []
      | Some us \<Rightarrow>
          (if isEqual env destinationPk us
           then (if isSyncMessage env msg
                 then admit env st destinationPk msg ns sentCb isGroup True
                        [InfoProcessingSyncMessage]
                 else (Inr (), st, [WarnDroppingMessageToOurself]))
           else admit env st destinationPk msg ns sentCb isGroup False []))"

definition sendToPubKey ::
  "'c QueueEnv \<Rightarrow> 'c MessageQueue \<Rightarrow> PubKey \<Rightarrow> ContentMessage \<Rightarrow> int \<Rightarrow> Callback option \<Rightarrow> bool
     \<Rightarrow> (error + unit) \<times> 'c MessageQueue \<times> mq_event list" where
  "sendToPubKey env st destinationPubKey msg ns sentCb isGroup =
     (if truthy (syncTarget msg)
      then (Inl (Error ''SyncMessage needs to be sent with sendSyncMessage''), st, [])
      else process env st destinationPubKey msg ns sentCb isGroup)"


section \<open>Vocabulary and concrete runs for the open-group sends\<close>

text \<open>
  \<open>isPublicSuccess\<close>: a call of the public-message success handler.
  \<open>isOpenGroupFailure\<close>: a call of the failure handler.  \<open>isOpenGroupTransport\<close>: a call of
  one of the two open-group transports of \<^verbatim>\<open>MessageSender\<close>.
\<close>

fun isPublicSuccess :: "mq_event \<Rightarrow> bool" where
  "isPublicSuccess (HandlePublicMessageSentSuccess i sid ts) = True"
| "isPublicSuccess ev = False"

fun isOpenGroupFailure :: "mq_event \<Rightarrow> bool" where
  "isOpenGroupFailure (HandleOpenGroupSentFailure m e) = True"
| "isOpenGroupFailure ev = False"

fun isOpenGroupTransport :: "mq_event \<Rightarrow> bool" where
  "isOpenGroupTransport (SendToOpenGroupV2 m r b fs) = True"
| "isOpenGroupTransport (SendToOpenGroupV2BlindedRequest c r i) = True"
| "isOpenGroupTransport ev = False"

text \<open>
  A concrete run for evaluation: every collaborator resolves and the transport answers
  with the server id \<open>sid\<close>.
\<close>

definition demoRoom :: OpenGroupRequestCommonType where
  "demoRoom = \<lparr> serverUrl = ''https://sogs.example'', roomId = ''lobby'' \<rparr>"

definition demoOpenMessage :: "Reaction option \<Rightarrow> OpenGroupVisibleMessage" where
  "demoOpenMessage r =
     \<lparr> msg_identifier = ''m1'', messageClass = VisibleMessage, syncTarget = None, reaction = r \<rparr>"

definition demoOpenGroupEnv :: "int option \<Rightarrow> OpenGroupEnv" where
  "demoOpenGroupEnv sid =
     \<lparr> sendSogsReactionOnionV4 = (\<lambda>url room r blinded. Inr True),
       senderSendToOpenGroupV2 =
         (\<lambda>m room blinded files. Inr \<lparr> serverId = sid, sentTimestamp = Some 1000 \<rparr>),
       senderSendToOpenGroupV2BlindedRequest =
         (\<lambda>content room rid. Inr \<lparr> serverId = sid, sentTimestamp = Some 1000 \<rparr>),
       isBlinded = (\<lambda>rid. take 2 rid = ''15''),
       handlePublicMessageSentSuccess = (\<lambda>i s ts. Inr ()),
       handleOpenGroupSentFailure = (\<lambda>m e. Inr ()) \<rparr>"

text \<open>The same run with a reaction endpoint that rejects.\<close>

definition demoReactionDownEnv :: OpenGroupEnv where
  "demoReactionDownEnv =
     (demoOpenGroupEnv (Some 5))
       \<lparr> sendSogsReactionOnionV4 := (\<lambda>url room r blinded. Inl (Error ''reaction endpoint down'')) \<rparr>"

section \<open>Vocabulary and concrete runs for the queue\<close>

text \<open>
  Recognisers of events, and \<open>jobsWithId\<close>: the jobs of a queue under one identifier.
  A concrete run for evaluation: the cache state is the list of stored messages, the
  local account is \<open>05alice\<close>; \<open>convertible\<close> tells whether \<^verbatim>\<open>toRawMessage\<close>
  resolves, \<open>reachable\<close> whether the transport does.
\<close>

fun isSentFailure :: "mq_event \<Rightarrow> bool" where
  "isSentFailure (HandleMessageSentFailure m e) = True"
| "isSentFailure ev = False"

definition demoRaw :: OutgoingRawMessage where
  "demoRaw = \<lparr> raw_identifier = ''m1'', device = ''05bob'', plainTextBuffer = [1, 2, 3],
               raw_namespace = 0 \<rparr>"

definition demoContent :: "MessageClass \<Rightarrow> string option \<Rightarrow> ContentMessage" where
  "demoContent c t = \<lparr> msg_identifier = ''m1'', messageClass = c, syncTarget = t \<rparr>"

definition demoQueueEnv :: "bool \<Rightarrow> bool \<Rightarrow> (OutgoingRawMessage list) QueueEnv" where
  "demoQueueEnv convertible reachable =
     \<lparr> toRawMessage = (\<lambda>pk m ns. if convertible
          then Inr \<lparr> raw_identifier = msg_identifier m, device = key pk, plainTextBuffer = [1, 2, 3],
                     raw_namespace = ns \<rparr>
          else Inl (Error ''cannot encode'')),
       send = (\<lambda>m isSync. if reachable
          then Inr \<lparr> wrappedEnvelope = [9], effectiveTimestamp = 1000 \<rparr>
          else Inl (Error ''relay unreachable'')),
       handleMessageSentSuccess = (\<lambda>m ts envelope. Inr ()),
       handleMessageSentFailure = (\<lambda>m e. Inr ()),
       ourPubKeyFromCache = Some (PubKey ''05alice''),
       ourPubKeyStrFromCache = ''05alice'',
       isSyncMessage = (\<lambda>m. messageClass m = UnsendMessage \<or> truthy (syncTarget m)),
       getForDevice = (\<lambda>c pk. Inr (filter (\<lambda>m. device m = key pk) (stored c))),
       cacheAdd = (\<lambda>c pk m ns cb isGroup.
          Inr (c\<lparr> callbacks := (case cb of None \<Rightarrow> callbacks c
                                   | Some f \<Rightarrow> (callbacks c)(msg_identifier m \<mapsto> f)),
                   stored := stored c @ [\<lparr> raw_identifier = msg_identifier m, device = key pk,
                                            plainTextBuffer = [1, 2, 3], raw_namespace = ns \<rparr>] \<rparr>)),
       cacheRemove = (\<lambda>c m. c\<lparr> stored := filter (\<lambda>x. raw_identifier x \<noteq> raw_identifier m) (stored c) \<rparr>),
       isEqual = (\<lambda>a b. key a = key b),
       PubKey_cast = (\<lambda>s. Inr (PubKey s)) \<rparr>"

definition demoState :: "(OutgoingRawMessage list) MessageQueue" where
  "demoState =
     \<lparr> jobQueues = Map.empty,
       pendingMessageCache = \<lparr> callbacks = Map.empty, stored = [] \<rparr> \<rparr>"

definition demoCb :: Callback where
  "demoCb m = Inr ()"

definition demoCache :: "(OutgoingRawMessage list) PendingMessageCache" where
  "demoCache = \<lparr> callbacks = [''m1'' \<mapsto> demoCb], stored = [demoRaw] \<rparr>"

definition demoJob :: Job where
  "demoJob = \<lparr> jobMessage = demoRaw, jobIsSyncMessage = False \<rparr>"

fun isSend :: "mq_event \<Rightarrow> bool" where
  "isSend (Send m s) = True"
| "isSend ev = False"

fun isCacheRemove :: "mq_event \<Rightarrow> bool" where
  "isCacheRemove (CacheRemove m) = True"
| "isCacheRemove ev = False"

fun isSentCb :: "mq_event \<Rightarrow> bool" where
  "isSentCb (SentCb m) = True"
| "isSentCb ev = False"

fun isCallbacksDelete :: "mq_event \<Rightarrow> bool" where
  "isCallbacksDelete (CallbacksDelete i) = True"
| "isCallbacksDelete ev = False"

definition jobsWithId :: "JobQueue \<Rightarrow> string \<Rightarrow> JobQueue" where
  "jobsWithId q jobId = filter (\<lambda>p. fst p = jobId) q"



text \<open>A queue state whose cache holds one message for \<open>05bob\<close>, with a callback.\<close>

definition demoPendingState :: "(OutgoingRawMessage list) MessageQueue" where
  "demoPendingState = \<lparr> jobQueues = Map.empty, pendingMessageCache = demoCache \<rparr>"

text \<open>
  Runs in which a later step of the job rejects: a success handler that rejects, and a
  cache whose registered callback rejects.
\<close>

definition demoHandlerDownEnv :: "(OutgoingRawMessage list) QueueEnv" where
  "demoHandlerDownEnv =
     (demoQueueEnv True True)
       \<lparr> handleMessageSentSuccess := (\<lambda>m ts envelope. Inl (Error ''handler failed'')) \<rparr>"

definition demoFailingCb :: Callback where
  "demoFailingCb m = Inl (Error ''callback failed'')"

definition demoFailingCbCache :: "(OutgoingRawMessage list) PendingMessageCache" where
  "demoFailingCbCache = \<lparr> callbacks = [''m1'' \<mapsto> demoFailingCb], stored = [demoRaw] \<rparr>"

section \<open>Properties of the kind and variant mappings\<close>

lemma kindToVariant_outside:
  "k \<notin> set wireKinds \<Longrightarrow> kindToVariant k = Inl (Error ''kindToVariant: Unsupported variant'')"
  by (cases k) (simp_all add: wireKinds_def assertUnreachable_def)

lemma variantToKind_outside:
  "v \<notin> UserVariant ` set requiredUserVariants \<Longrightarrow>
     variantToKind v = Inl (Error ''variantToKind: Unsupported kind'')"
proof (cases v)
  case (UserVariant u)
  assume "v \<notin> UserVariant ` set requiredUserVariants"
  with UserVariant have "u \<notin> set requiredUserVariants" by auto
  then show ?thesis by (cases u) (simp_all add: requiredUserVariants_def)
next
  case (MetaGroupConfig g)
  then show ?thesis by (simp add: assertUnreachable_def)
qed

text \<open>
  C8.  Over the four required user variants and the four wire kinds the two mappings are
  inverse to each other and never fail: \<open>kindToVariant (variantToKind v) = v\<close> for each
  required variant and \<open>variantToKind (kindToVariant k) = k\<close> for each wire kind.  Every
  value outside those sets (another wire value, a group variant) takes the
  \<^verbatim>\<open>assertUnreachable\<close> path: the function raises and returns no value.
\<close>

theorem kind_variant_bijection:
  "(\<forall>v \<in> set requiredUserVariants.
      \<exists>k \<in> set wireKinds. variantToKind (UserVariant v) = Inr k \<and> kindToVariant k = Inr (UserVariant v))
   \<and> (\<forall>k \<in> set wireKinds.
      \<exists>v \<in> set requiredUserVariants.
        kindToVariant k = Inr (UserVariant v) \<and> variantToKind (UserVariant v) = Inr k)
   \<and> (\<forall>k. k \<notin> set wireKinds \<longrightarrow>
        kindToVariant k = assertUnreachable ''kindToVariant: Unsupported variant''
        \<and> kindToVariant k = Inl (Error ''kindToVariant: Unsupported variant''))
   \<and> (\<forall>v. v \<notin> UserVariant ` set requiredUserVariants \<longrightarrow>
        variantToKind v = assertUnreachable ''variantToKind: Unsupported kind''
        \<and> variantToKind v = Inl (Error ''variantToKind: Unsupported kind''))
   \<and> length requiredUserVariants = 4 \<and> distinct requiredUserVariants
   \<and> length wireKinds = 4 \<and> distinct wireKinds"
proof -
  have a: "\<forall>v \<in> set requiredUserVariants.
      \<exists>k \<in> set wireKinds. variantToKind (UserVariant v) = Inr k \<and> kindToVariant k = Inr (UserVariant v)"
    by (simp add: requiredUserVariants_def wireKinds_def)
  have b: "\<forall>k \<in> set wireKinds.
      \<exists>v \<in> set requiredUserVariants.
        kindToVariant k = Inr (UserVariant v) \<and> variantToKind (UserVariant v) = Inr k"
    by (simp add: requiredUserVariants_def wireKinds_def)
  have c: "\<forall>k. k \<notin> set wireKinds \<longrightarrow>
        kindToVariant k = assertUnreachable ''kindToVariant: Unsupported variant''
        \<and> kindToVariant k = Inl (Error ''kindToVariant: Unsupported variant'')"
    using kindToVariant_outside by (simp add: assertUnreachable_def)
  have d: "\<forall>v. v \<notin> UserVariant ` set requiredUserVariants \<longrightarrow>
        variantToKind v = assertUnreachable ''variantToKind: Unsupported kind''
        \<and> variantToKind v = Inl (Error ''variantToKind: Unsupported kind'')"
    using variantToKind_outside by (simp add: assertUnreachable_def)
  have e: "length requiredUserVariants = 4 \<and> distinct requiredUserVariants
     \<and> length wireKinds = 4 \<and> distinct wireKinds"
    by (simp add: requiredUserVariants_def wireKinds_def)
  from a b c d e show ?thesis by blast
qed

theorem kind_variant_bijection_witness:
  "ContactsConfig \<in> set requiredUserVariants
   \<and> variantToKind (UserVariant ContactsConfig) = Inr CONTACTS
   \<and> kindToVariant CONTACTS = Inr (UserVariant ContactsConfig)
   \<and> OtherKind 7 \<notin> set wireKinds
   \<and> kindToVariant (OtherKind 7) = Inl (Error ''kindToVariant: Unsupported variant'')
   \<and> MetaGroupConfig ''03ab'' \<notin> UserVariant ` set requiredUserVariants
   \<and> variantToKind (MetaGroupConfig ''03ab'') = Inl (Error ''variantToKind: Unsupported kind'')"
proof -
  have k: "OtherKind 7 \<notin> set wireKinds"
    by (simp add: wireKinds_def)
  have g: "MetaGroupConfig ''03ab'' \<notin> UserVariant ` set requiredUserVariants"
    by auto
  have m: "ContactsConfig \<in> set requiredUserVariants"
    by (simp add: requiredUserVariants_def)
  from kind_variant_bijection k
  have k': "kindToVariant (OtherKind 7) = Inl (Error ''kindToVariant: Unsupported variant'')"
    by blast
  from kind_variant_bijection g
  have g': "variantToKind (MetaGroupConfig ''03ab'') = Inl (Error ''variantToKind: Unsupported kind'')"
    by blast
  from kind_variant_bijection m
  obtain k0 where "variantToKind (UserVariant ContactsConfig) = Inr k0"
    and "kindToVariant k0 = Inr (UserVariant ContactsConfig)"
    by blast
  then have c: "variantToKind (UserVariant ContactsConfig) = Inr CONTACTS
     \<and> kindToVariant CONTACTS = Inr (UserVariant ContactsConfig)"
    by simp
  from k g m k' g' c show ?thesis by blast
qed

section \<open>Properties of markAsPushed\<close>

text \<open>
  C6.  For an identity other than the local account's, \<open>markAsPushed\<close> raises an error and
  the merge engine keeps its state.  For the local identity the engine's state afterwards
  is the one a single \<open>confirmPushed\<close> with the given variant, sequence number and hash
  produces, and the answer is \<open>needsDump\<close>'s answer on that state, unchanged (a rejection
  of \<open>confirmPushed\<close> propagates, with the state as it was).
\<close>

theorem markAsPushed_contract:
  "(pubkey \<noteq> us \<longrightarrow>
      (\<exists>e. fst (markAsPushed acts us w v pubkey n h) = Inl e)
      \<and> snd (markAsPushed acts us w v pubkey n h) = w)
   \<and> (pubkey = us \<longrightarrow>
      (\<forall>w'. confirmPushed acts w v n h = Inr w' \<longrightarrow>
         markAsPushed acts us w v pubkey n h = (needsDump acts w' v, w'))
      \<and> (\<forall>e. confirmPushed acts w v n h = Inl e \<longrightarrow>
         markAsPushed acts us w v pubkey n h = (Inl e, w)))"
  by (simp add: markAsPushed_def)

theorem markAsPushed_contract_witness:
  "''05bob'' \<noteq> ''05alice''
   \<and> fst (markAsPushed demoActions ''05alice'' [] UserConfig ''05bob'' 3 ''h3'')
       = Inl (Error ''FIXME, generic case is to be done'')
   \<and> snd (markAsPushed demoActions ''05alice'' [] UserConfig ''05bob'' 3 ''h3'') = []
   \<and> confirmPushed demoActions [] UserConfig 3 ''h3'' = Inr [(UserConfig, 3, ''h3'')]
   \<and> markAsPushed demoActions ''05alice'' [] UserConfig ''05alice'' 3 ''h3''
       = (Inr True, [(UserConfig, 3, ''h3'')])
   \<and> confirmPushed demoRejectingActions [] UserConfig 3 ''h3'' = Inl (Error ''engine unavailable'')
   \<and> markAsPushed demoRejectingActions ''05alice'' [] UserConfig ''05alice'' 3 ''h3''
       = (Inl (Error ''engine unavailable''), [])"
proof -
  have c: "confirmPushed demoActions [] UserConfig 3 ''h3'' = Inr [(UserConfig, 3, ''h3'')]"
    by (simp add: demoActions_def)
  have n: "needsDump demoActions [(UserConfig, 3, ''h3'')] UserConfig = Inr True"
    by (simp add: demoActions_def)
  have d: "''05bob'' \<noteq> ''05alice''" by simp
  from markAsPushed_contract [of "''05alice''" "''05alice''" demoActions "[]" UserConfig 3 "''h3''"] c n
  have l: "markAsPushed demoActions ''05alice'' [] UserConfig ''05alice'' 3 ''h3''
       = (Inr True, [(UserConfig, 3, ''h3'')])"
    by simp
  from markAsPushed_contract [of "''05bob''" "''05alice''" demoActions "[]" UserConfig 3 "''h3''"] d
  have r: "snd (markAsPushed demoActions ''05alice'' [] UserConfig ''05bob'' 3 ''h3'') = []"
    by blast
  have r': "fst (markAsPushed demoActions ''05alice'' [] UserConfig ''05bob'' 3 ''h3'')
       = Inl (Error ''FIXME, generic case is to be done'')"
    by (simp add: markAsPushed_def)
  have c': "confirmPushed demoRejectingActions [] UserConfig 3 ''h3''
      = Inl (Error ''engine unavailable'')"
    by (simp add: demoRejectingActions_def)
  from markAsPushed_contract
    [of "''05alice''" "''05alice''" demoRejectingActions "[]" UserConfig 3 "''h3''"] c'
  have l': "markAsPushed demoRejectingActions ''05alice'' [] UserConfig ''05alice'' 3 ''h3''
       = (Inl (Error ''engine unavailable''), [])"
    by blast
  from d r' r c l c' l' show ?thesis by blast
qed

section \<open>Properties of pendingChangesForPubkey\<close>

lemma loop_results:
  "pendingChangesLoop q w now i ds acc = Inr rs \<Longrightarrow>
     \<exists>new. rs = acc @ new \<and> list_all2 (carriesPush q w) new (dirtyUserVariants q w ds)"
proof (induction ds arbitrary: i acc)
  case Nil
  then show ?case by simp
next
  case (Cons d ds)
  show ?case
  proof (cases "variant d")
    case (MetaGroupConfig g)
    with Cons.prems have "pendingChangesLoop q w now (Suc i) ds acc = Inr rs" by simp
    from Cons.IH [OF this] MetaGroupConfig show ?thesis by simp
  next
    case (UserVariant v)
    show ?thesis
    proof (cases "needsPush q w v = Inr True")
      case False
      with Cons.prems UserVariant have "pendingChangesLoop q w now (Suc i) ds acc = Inr rs"
        by (auto split: sum.splits bool.splits)
      from Cons.IH [OF this] UserVariant False show ?thesis by simp
    next
      case True
      with Cons.prems UserVariant obtain pr k ns where
        p: "push q w v = Inr pr" and k: "variantToKind (UserVariant v) = Inr k"
        and n: "storageNamespace q w v = Inr ns"
        and r: "pendingChangesLoop q w now (Suc i) ds
                 (acc @ [\<lparr> conf_message = \<lparr> data = push_data pr, kind = k,
                                       seqno = Long_fromNumber (push_seqno pr),
                                       timestamp = now i \<rparr>,
                           conf_namespace = ns, oldMessageHashes = push_hashes pr \<rparr>]) = Inr rs"
        by (auto split: sum.splits)
      from Cons.IH [OF r] obtain new where
        new: "rs = (acc @ [\<lparr> conf_message = \<lparr> data = push_data pr, kind = k,
                                       seqno = Long_fromNumber (push_seqno pr),
                                       timestamp = now i \<rparr>,
                           conf_namespace = ns, oldMessageHashes = push_hashes pr \<rparr>]) @ new"
        and all: "list_all2 (carriesPush q w) new (dirtyUserVariants q w ds)"
        by blast
      have c: "carriesPush q w \<lparr> conf_message = \<lparr> data = push_data pr, kind = k,
                                       seqno = Long_fromNumber (push_seqno pr),
                                       timestamp = now i \<rparr>,
                           conf_namespace = ns, oldMessageHashes = push_hashes pr \<rparr> v"
        using p k n by (simp add: carriesPush_def)
      from new all c UserVariant True show ?thesis by simp
    qed
  qed
qed

lemma variantToKind_inj:
  "variantToKind (UserVariant v) = Inr k \<Longrightarrow> variantToKind (UserVariant v') = Inr k \<Longrightarrow> v = v'"
  by (cases v; cases v') simp_all

lemma resultsFor_one:
  "list_all2 (carriesPush q w) rs vs \<Longrightarrow> distinct vs \<Longrightarrow> v \<in> set vs \<Longrightarrow>
     length (resultsFor v rs) = 1"
proof (induction rs vs rule: list_all2_induct)
  case Nil
  then show ?case by simp
next
  case (Cons r rs v' vs)
  from Cons.hyps(1) have k: "variantToKind (UserVariant v') = Inr (kind (conf_message r))"
    by (simp add: carriesPush_def split: sum.splits)
  show ?case
  proof (cases "v = v'")
    case True
    have "resultsFor v rs = []"
    proof (rule ccontr)
      assume "resultsFor v rs \<noteq> []"
      then obtain r' where r': "r' \<in> set rs" and kr: "variantToKind (UserVariant v) = Inr (kind (conf_message r'))"
        by (auto simp: resultsFor_def filter_empty_conv)
      from r' obtain j where j: "j < length rs" "rs ! j = r'"
        by (auto simp: in_set_conv_nth)
      from Cons.hyps(2) j have jl: "j < length vs" and c: "carriesPush q w r' (vs ! j)"
        by (auto simp: list_all2_conv_all_nth)
      define v'' where "v'' = vs ! j"
      from jl c have v'': "v'' \<in> set vs" and c: "carriesPush q w r' v''"
        by (simp_all add: v''_def)
      from c have "variantToKind (UserVariant v'') = Inr (kind (conf_message r'))"
        by (simp add: carriesPush_def split: sum.splits)
      with kr have "v = v''" by (rule variantToKind_inj)
      with v'' True Cons.prems show False by simp
    qed
    with True k show ?thesis by (simp add: resultsFor_def)
  next
    case False
    with Cons.prems have "v \<in> set vs" "distinct vs" by auto
    then have "length (resultsFor v rs) = 1" using Cons.IH by blast
    moreover have "variantToKind (UserVariant v) \<noteq> Inr (kind (conf_message r))"
      using False k variantToKind_inj by blast
    ultimately show ?thesis by (simp add: resultsFor_def)
  qed
qed

lemma dirty_subseq: "set (dirtyUserVariants q w ds) \<subseteq> set (userVariantsOf ds)"
  by (induction ds) (auto split: ConfigWrapperObjectTypes.splits)

lemma dirty_distinct: "distinct (userVariantsOf ds) \<Longrightarrow> distinct (dirtyUserVariants q w ds)"
proof (induction ds)
  case Nil
  then show ?case by simp
next
  case (Cons d ds)
  then show ?case using dirty_subseq [of q w ds]
    by (auto split: ConfigWrapperObjectTypes.splits)
qed

lemma dirty_mem:
  "v \<in> set (dirtyUserVariants q w ds) \<longleftrightarrow> v \<in> set (userVariantsOf ds) \<and> needsPush q w v = Inr True"
  by (induction ds) (auto split: ConfigWrapperObjectTypes.splits)

lemma userVariantsOf_append: "userVariantsOf (xs @ ys) = userVariantsOf xs @ userVariantsOf ys"
  by (induction xs) (auto split: ConfigWrapperObjectTypes.splits)

lemma userVariantsOf_mem:
  "v \<in> set (userVariantsOf ds) \<longleftrightarrow> (\<exists>d \<in> set ds. variant d = UserVariant v)"
  by (induction ds) (auto split: ConfigWrapperObjectTypes.splits)

lemma addRequiredVariant_has:
  "\<exists>d \<in> set (addRequiredVariant us ds rv). publicKey d = us \<and> variant d = UserVariant rv"
proof (cases "find (\<lambda>m. publicKey m = us \<and> variant m = UserVariant rv) ds")
  case None
  then show ?thesis by (simp add: addRequiredVariant_def)
next
  case (Some m)
  then have "m \<in> set ds \<and> publicKey m = us \<and> variant m = UserVariant rv"
    by (auto simp: find_Some_iff)
  with Some show ?thesis by (auto simp: addRequiredVariant_def)
qed

lemma addRequiredVariant_mono: "set ds \<subseteq> set (addRequiredVariant us ds rv)"
  by (auto simp: addRequiredVariant_def split: option.splits)

lemma foldl_addRequired_mono: "set ds \<subseteq> set (foldl (addRequiredVariant us) ds rvs)"
proof (induction rvs arbitrary: ds)
  case Nil
  then show ?case by simp
next
  case (Cons rv rvs)
  from Cons.IH [of "addRequiredVariant us ds rv"] addRequiredVariant_mono [of ds us rv]
  show ?case by auto
qed

lemma foldl_addRequired_has:
  "rv \<in> set rvs \<Longrightarrow>
     \<exists>d \<in> set (foldl (addRequiredVariant us) ds rvs). publicKey d = us \<and> variant d = UserVariant rv"
proof (induction rvs arbitrary: ds)
  case Nil
  then show ?case by simp
next
  case (Cons a rvs)
  show ?case
  proof (cases "rv = a")
    case True
    from addRequiredVariant_has [of us ds a] obtain d where
      "d \<in> set (addRequiredVariant us ds a)" "publicKey d = us" "variant d = UserVariant a" by blast
    with foldl_addRequired_mono [of "addRequiredVariant us ds a" us rvs] True
    show ?thesis by auto
  next
    case False
    with Cons.prems have "rv \<in> set rvs" by simp
    from Cons.IH [OF this, of "addRequiredVariant us ds a"] show ?thesis by simp
  qed
qed

lemma addRequiredVariant_ownedDistinct:
  "ownedDistinct us ds \<Longrightarrow> ownedDistinct us (addRequiredVariant us ds rv)"
proof (cases "find (\<lambda>m. publicKey m = us \<and> variant m = UserVariant rv) ds")
  case (Some m)
  assume "ownedDistinct us ds"
  with Some show ?thesis by (simp add: addRequiredVariant_def)
next
  case None
  assume od: "ownedDistinct us ds"
  from None have nf: "\<forall>d \<in> set ds. \<not> (publicKey d = us \<and> variant d = UserVariant rv)"
    by (simp add: find_None_iff)
  have "rv \<notin> set (userVariantsOf ds)"
  proof
    assume "rv \<in> set (userVariantsOf ds)"
    then obtain d where d: "d \<in> set ds" "variant d = UserVariant rv"
      by (auto simp: userVariantsOf_mem)
    with od have "publicKey d = us" by (auto simp: ownedDistinct_def list_all_iff)
    with d nf show False by blast
  qed
  with od None show ?thesis
    by (simp add: addRequiredVariant_def ownedDistinct_def userVariantsOf_append)
qed

lemma foldl_addRequired_ownedDistinct:
  "ownedDistinct us ds \<Longrightarrow> ownedDistinct us (foldl (addRequiredVariant us) ds rvs)"
  by (induction rvs arbitrary: ds) (simp_all add: addRequiredVariant_ownedDistinct)

lemma withRequiredVariants_ownedDistinct:
  "ownedDistinct us ds \<Longrightarrow> distinct (userVariantsOf (withRequiredVariants us pubkey ds))"
  using foldl_addRequired_ownedDistinct [of us ds requiredUserVariants]
  by (auto simp: withRequiredVariants_def ownedDistinct_def)

lemma loop_returns:
  "\<forall>v. needsPush q w v \<noteq> Inr True \<or> (\<exists>pr ns. push q w v = Inr pr \<and> storageNamespace q w v = Inr ns) \<Longrightarrow>
   \<forall>v. \<exists>b. needsPush q w v = Inr b \<Longrightarrow>
   \<exists>rs. pendingChangesLoop q w now i ds acc = Inr rs"
proof (induction ds arbitrary: i acc)
  case Nil
  then show ?case by simp
next
  case (Cons d ds)
  show ?case
  proof (cases "variant d")
    case (MetaGroupConfig g)
    with Cons show ?thesis by simp
  next
    case (UserVariant v)
    from Cons.prems(2) obtain b where b: "needsPush q w v = Inr b" by blast
    show ?thesis
    proof (cases b)
      case False
      with b UserVariant Cons show ?thesis by simp
    next
      case True
      with b have "needsPush q w v = Inr True" by simp
      with Cons.prems(1) obtain pr ns where "push q w v = Inr pr" "storageNamespace q w v = Inr ns"
        by blast
      moreover obtain k where "variantToKind (UserVariant v) = Inr k" by (cases v) simp_all
      ultimately show ?thesis using True b UserVariant Cons by simp
    qed
  qed
qed


text \<open>
  C5, as amended.  When a call of \<open>pendingChangesForPubkey\<close> returns, its result holds
  exactly one \<open>OutgoingConfResult\<close> per row (stored, or synthesized for the local account)
  whose variant is user-scoped and reported dirty, in row order; each carries the wire kind
  of its variant, the sequence number (through \<^verbatim>\<open>Long.fromNumber\<close>, which keeps
  every number of the signed 64-bit range), the data, the
  namespace and, as \<open>oldMessageHashes\<close>, exactly the superseded-hash list that the engine's
  push returned for that variant.  When the stored rows have pairwise different user variants,
  all owned by the local account, every dirty user variant that has a row appears exactly
  once.  When the given identity is the local account every required variant has a row,
  synthesized if none was stored.  The call returns whenever no engine query rejects.
\<close>

theorem pendingChangesForPubkey_results:
  "(\<forall>rs. pendingChangesForPubkey q w now us (Inr dumps) pubkey = Inr rs \<longrightarrow>
      list_all2 (carriesPush q w) rs
        (dirtyUserVariants q w (withRequiredVariants us pubkey dumps))
      \<and> (ownedDistinct us dumps \<longrightarrow>
           (\<forall>v \<in> set (userVariantsOf (withRequiredVariants us pubkey dumps)).
              needsPush q w v = Inr True \<longrightarrow> length (resultsFor v rs) = 1)))
   \<and> (pubkey = us \<longrightarrow>
        set requiredUserVariants \<subseteq> set (userVariantsOf (withRequiredVariants us pubkey dumps)))
   \<and> (neverRejects q w \<longrightarrow>
        (\<exists>rs. pendingChangesForPubkey q w now us (Inr dumps) pubkey = Inr rs))
   \<and> (\<forall>n. - (2 ^ 63) \<le> n \<and> n < 2 ^ 63 \<longrightarrow> Long_fromNumber n = n)"
proof -
  let ?ds = "withRequiredVariants us pubkey dumps"
  have a: "list_all2 (carriesPush q w) rs (dirtyUserVariants q w ?ds)"
    if r: "pendingChangesForPubkey q w now us (Inr dumps) pubkey = Inr rs" for rs
  proof -
    from r have "pendingChangesLoop q w now 0 ?ds [] = Inr rs"
      by (simp add: pendingChangesForPubkey_def)
    from loop_results [OF this] show ?thesis by simp
  qed
  have b: "length (resultsFor v rs) = 1"
    if r: "pendingChangesForPubkey q w now us (Inr dumps) pubkey = Inr rs"
      and od: "ownedDistinct us dumps"
      and v: "v \<in> set (userVariantsOf ?ds)" and d: "needsPush q w v = Inr True" for rs v
  proof -
    from od have "distinct (userVariantsOf ?ds)" by (rule withRequiredVariants_ownedDistinct)
    then have "distinct (dirtyUserVariants q w ?ds)" by (rule dirty_distinct)
    moreover from v d have "v \<in> set (dirtyUserVariants q w ?ds)" by (simp add: dirty_mem)
    ultimately show ?thesis using a [OF r] by (rule resultsFor_one [rotated])
  qed
  have c: "set requiredUserVariants \<subseteq> set (userVariantsOf ?ds)" if "pubkey = us"
  proof
    fix rv assume "rv \<in> set requiredUserVariants"
    from foldl_addRequired_has [OF this, of us dumps] that
    show "rv \<in> set (userVariantsOf ?ds)"
      by (auto simp: withRequiredVariants_def userVariantsOf_mem)
  qed
  have d: "\<exists>rs. pendingChangesForPubkey q w now us (Inr dumps) pubkey = Inr rs"
    if "neverRejects q w"
  proof -
    from that have "\<forall>v. needsPush q w v \<noteq> Inr True
          \<or> (\<exists>pr ns. push q w v = Inr pr \<and> storageNamespace q w v = Inr ns)"
      and "\<forall>v. \<exists>b. needsPush q w v = Inr b"
      by (auto simp: neverRejects_def)
    from loop_returns [OF this] show ?thesis
      by (simp add: pendingChangesForPubkey_def)
  qed
  have e: "\<forall>n. - (2 ^ 63) \<le> n \<and> n < 2 ^ 63 \<longrightarrow> Long_fromNumber n = n"
    by (simp add: Long_fromNumber_def)
  from a b c d e show ?thesis by blast
qed

lemma demoQueries_neverRejects: "neverRejects demoQueries w"
  by (simp add: neverRejects_def demoQueries_def)


text \<open>
  First launch for the local account with the group list dirty: one stored row, three
  synthesized ones, one result.
\<close>

lemma demo_run:
  "pendingChangesForPubkey demoQueries [UserGroupsConfig] demoNow ''05alice''
         (Inr [\<lparr> publicKey = ''05alice'', variant = UserVariant ContactsConfig \<rparr>]) ''05alice''
   = Inr [\<lparr> conf_message = \<lparr> data = [1, 2], kind = USER_GROUPS, seqno = 7, timestamp = 1002 \<rparr>,
            conf_namespace = 2, oldMessageHashes = [''h1'', ''h2''] \<rparr>]"
  by (simp add: pendingChangesForPubkey_def withRequiredVariants_def requiredUserVariants_def
      addRequiredVariant_def demoQueries_def demoNow_def Long_fromNumber_def)

text \<open>
  C5 as stated fails.  With \<open>UserConfig\<close> dirty: a call for another identity with no
  stored row returns no result for it; a call for the local account with a \<open>UserConfig\<close> row
  stored under another owner returns two results for it (the stored row and the placeholder).
\<close>

theorem pendingChangesForPubkey_counterexample:
  "needsPush demoQueries [UserConfig] UserConfig = Inr True
   \<and> pendingChangesForPubkey demoQueries [UserConfig] demoNow ''05alice'' (Inr []) ''05bob'' = Inr []
   \<and> pendingChangesForPubkey demoQueries [UserConfig] demoNow ''05alice''
        (Inr [\<lparr> publicKey = ''05bob'', variant = UserVariant UserConfig \<rparr>]) ''05alice''
      = Inr [\<lparr> conf_message = \<lparr> data = [1, 2], kind = USER_PROFILE, seqno = 7, timestamp = 1000 \<rparr>,
               conf_namespace = 2, oldMessageHashes = [''h1'', ''h2''] \<rparr>,
             \<lparr> conf_message = \<lparr> data = [1, 2], kind = USER_PROFILE, seqno = 7, timestamp = 1001 \<rparr>,
               conf_namespace = 2, oldMessageHashes = [''h1'', ''h2''] \<rparr>]"
  by (simp add: pendingChangesForPubkey_def withRequiredVariants_def requiredUserVariants_def
      addRequiredVariant_def demoQueries_def demoNow_def Long_fromNumber_def)


theorem pendingChangesForPubkey_results_witness:
  "pendingChangesForPubkey demoQueries [UserGroupsConfig] demoNow ''05alice''
         (Inr [\<lparr> publicKey = ''05alice'', variant = UserVariant ContactsConfig \<rparr>]) ''05alice''
     = Inr [\<lparr> conf_message = \<lparr> data = [1, 2], kind = USER_GROUPS, seqno = 7, timestamp = 1002 \<rparr>,
              conf_namespace = 2, oldMessageHashes = [''h1'', ''h2''] \<rparr>]
   \<and> ownedDistinct ''05alice'' [\<lparr> publicKey = ''05alice'', variant = UserVariant ContactsConfig \<rparr>]
   \<and> needsPush demoQueries [UserGroupsConfig] UserGroupsConfig = Inr True
   \<and> neverRejects demoQueries [UserGroupsConfig]
   \<and> set requiredUserVariants \<subseteq> set (userVariantsOf (withRequiredVariants ''05alice'' ''05alice''
         [\<lparr> publicKey = ''05alice'', variant = UserVariant ContactsConfig \<rparr>]))
   \<and> length (resultsFor UserGroupsConfig
         [\<lparr> conf_message = \<lparr> data = [1, 2], kind = USER_GROUPS, seqno = 7, timestamp = 1002 \<rparr>,
            conf_namespace = 2, oldMessageHashes = [''h1'', ''h2''] \<rparr>]) = 1
   \<and> list_all2 (carriesPush demoQueries [UserGroupsConfig])
         [\<lparr> conf_message = \<lparr> data = [1, 2], kind = USER_GROUPS, seqno = 7, timestamp = 1002 \<rparr>,
            conf_namespace = 2, oldMessageHashes = [''h1'', ''h2''] \<rparr>]
         (dirtyUserVariants demoQueries [UserGroupsConfig] (withRequiredVariants ''05alice'' ''05alice''
         [\<lparr> publicKey = ''05alice'', variant = UserVariant ContactsConfig \<rparr>]))
   \<and> Long_fromNumber 7 = 7"
proof -
  let ?row = "\<lparr> publicKey = ''05alice'', variant = UserVariant ContactsConfig \<rparr>"
  let ?r = "\<lparr> conf_message = \<lparr> data = [1, 2], kind = USER_GROUPS, seqno = 7, timestamp = 1002 \<rparr>,
              conf_namespace = 2, oldMessageHashes = [''h1'', ''h2''] \<rparr>"
  note t = pendingChangesForPubkey_results
    [of demoQueries "[UserGroupsConfig]" demoNow "''05alice''" "[?row]" "''05alice''"]
  have od: "ownedDistinct ''05alice'' [?row]"
    by (simp add: ownedDistinct_def)
  have np: "needsPush demoQueries [UserGroupsConfig] UserGroupsConfig = Inr True"
    by (simp add: demoQueries_def)
  have nr: "neverRejects demoQueries [UserGroupsConfig]"
    by (rule demoQueries_neverRejects)
  from t have sub: "set requiredUserVariants \<subseteq> set (userVariantsOf
      (withRequiredVariants ''05alice'' ''05alice'' [?row]))"
    by blast
  have "UserGroupsConfig \<in> set requiredUserVariants"
    by (simp add: requiredUserVariants_def)
  with sub have mem: "UserGroupsConfig \<in> set (userVariantsOf
      (withRequiredVariants ''05alice'' ''05alice'' [?row]))"
    by blast
  from t demo_run od mem np have one: "length (resultsFor UserGroupsConfig [?r]) = 1"
    by blast
  from t demo_run have all: "list_all2 (carriesPush demoQueries [UserGroupsConfig]) [?r]
      (dirtyUserVariants demoQueries [UserGroupsConfig]
        (withRequiredVariants ''05alice'' ''05alice'' [?row]))"
    by blast
  from t have "- (2 ^ 63) \<le> (7 :: int) \<and> (7 :: int) < 2 ^ 63 \<longrightarrow> Long_fromNumber 7 = 7"
    by blast
  then have long: "Long_fromNumber 7 = 7" by simp
  from demo_run od np nr sub one all long show ?thesis by blast
qed

section \<open>Properties of initializeLibSessionUtilWrappers\<close>

lemma groupsAttempted_append: "groupsAttempted (xs @ ys) = groupsAttempted xs @ groupsAttempted ys"
  by (induction xs rule: groupsAttempted.induct) simp_all

lemma initGroupFromDump_attempted:
  "groupsAttempted (snd (initGroupFromDump env k g pk d)) = [g]"
  by (simp add: initGroupFromDump_def Let_def split: sum.splits)

lemma loadGroupDumps_isolated:
  "hexDecodes env dumps \<Longrightarrow>
     fst (loadGroupDumps env k dumps) = Inr ()
     \<and> groupsAttempted (snd (loadGroupDumps env k dumps)) = groupsOf dumps"
proof (induction dumps)
  case Nil
  then show ?case by simp
next
  case (Cons d ds)
  show ?case
  proof (cases "variant d")
    case (UserVariant v)
    with Cons show ?thesis by (simp add: hexDecodes_def)
  next
    case (MetaGroupConfig g)
    with Cons.prems have h: "\<not> isl (fromHexString env (drop 2 g))" and hs: "hexDecodes env ds"
      by (simp_all add: hexDecodes_def)
    from h obtain pk where pk: "fromHexString env (drop 2 g) = Inr pk"
      by (cases "fromHexString env (drop 2 g)") simp_all
    from Cons.IH [OF hs] have ih1: "fst (loadGroupDumps env k ds) = Inr ()"
      and ih2: "groupsAttempted (snd (loadGroupDumps env k ds)) = groupsOf ds"
      by simp_all
    obtain r tr where i: "initGroupFromDump env k g pk (dumpData d) = (r, tr)"
      by (cases "initGroupFromDump env k g pk (dumpData d)")
    with initGroupFromDump_attempted [of env k g pk "dumpData d"]
    have a: "groupsAttempted tr = [g]" by simp
    obtain r' tr' where l: "loadGroupDumps env k ds = (r', tr')"
      by (cases "loadGroupDumps env k ds")
    with ih1 ih2 have r': "r' = Inr ()" and tr': "groupsAttempted tr' = groupsOf ds" by simp_all
    show ?thesis
      using MetaGroupConfig pk i l a r' tr'
      by (cases r) (simp_all add: groupsAttempted_append)
  qed
qed

lemma loadUserDumps_no_groups: "groupsAttempted (snd (loadUserDumps env k dumps built)) = []"
proof (induction dumps arbitrary: built)
  case Nil
  then show ?case by simp
next
  case (Cons d ds)
  show ?case
  proof (cases "variant d")
    case (MetaGroupConfig g)
    with Cons show ?thesis by simp
  next
    case (UserVariant v)
    show ?thesis
    proof (cases "genericInit env v k (if length (dumpData d) \<noteq> 0 then Some (dumpData d) else None)")
      case (Inl e)
      with UserVariant show ?thesis by (simp add: Let_def)
    next
      case (Inr u)
      obtain r tr where l: "loadUserDumps env k ds (List.insert v built) = (r, tr)"
        by (cases "loadUserDumps env k ds (List.insert v built)")
      with Cons.IH [of "List.insert v built"] have "groupsAttempted tr = []" by simp
      with UserVariant Inr l show ?thesis by (simp add: Let_def)
    qed
  qed
qed

lemma createMissingVariants_no_groups:
  "groupsAttempted (snd (createMissingVariants env k missing)) = []"
proof (induction missing)
  case Nil
  then show ?case by simp
next
  case (Cons m ms)
  obtain r tr where l: "createMissingVariants env k ms = (r, tr)"
    by (cases "createMissingVariants env k ms")
  with Cons have "groupsAttempted tr = []" by simp
  with l show ?case by (simp add: Let_def split: sum.splits)
qed

lemma loadGroupDumps_logged:
  "hexDecodes env dumps \<Longrightarrow> d \<in> set dumps \<Longrightarrow> variant d = MetaGroupConfig g \<Longrightarrow>
   fromHexString env (drop 2 g) = Inr pk \<Longrightarrow>
   fst (initGroupFromDump env k g pk (dumpData d)) = Inl e \<Longrightarrow>
     WarnGroupInitFailed (MetaGroupConfig g) e \<in> set (snd (loadGroupDumps env k dumps))"
proof (induction dumps)
  case Nil
  then show ?case by simp
next
  case (Cons a ds)
  obtain r' tr' where l: "loadGroupDumps env k ds = (r', tr')"
    by (cases "loadGroupDumps env k ds")
  show ?case
  proof (cases "variant a")
    case (UserVariant v)
    with Cons.prems have "d \<in> set ds" "hexDecodes env ds" by (auto simp: hexDecodes_def)
    from Cons.IH [OF this(2) this(1) Cons.prems(3,4,5)] UserVariant show ?thesis by simp
  next
    case (MetaGroupConfig ga)
    with Cons.prems(1) have h: "\<not> isl (fromHexString env (drop 2 ga))" and hs: "hexDecodes env ds"
      by (simp_all add: hexDecodes_def)
    from h obtain pka where pka: "fromHexString env (drop 2 ga) = Inr pka"
      by (cases "fromHexString env (drop 2 ga)") simp_all
    obtain r tr where i: "initGroupFromDump env k ga pka (dumpData a) = (r, tr)"
      by (cases "initGroupFromDump env k ga pka (dumpData a)")
    show ?thesis
    proof (cases "d = a")
      case True
      with Cons.prems(3) MetaGroupConfig have "ga = g" by simp
      with pka Cons.prems(4) have "pka = pk" by simp
      with True \<open>ga = g\<close> i Cons.prems(5) have "r = Inl e" by simp
      with MetaGroupConfig pka i l \<open>ga = g\<close> show ?thesis by simp
    next
      case False
      with Cons.prems(2) have "d \<in> set ds" by simp
      from Cons.IH [OF hs this Cons.prems(3,4,5)] l
      have "WarnGroupInitFailed (MetaGroupConfig g) e \<in> set tr'" by simp
      with MetaGroupConfig pka i l show ?thesis by (cases r) simp_all
    qed
  qed
qed

lemma loadUserDumps_propagates:
  "d \<in> set dumps \<Longrightarrow> variant d = UserVariant v \<Longrightarrow> genericInit env v k (initArg d) = Inl e \<Longrightarrow>
     \<exists>e'. fst (loadUserDumps env k dumps built) = Inl (InitializeFailedWith e')
        \<and> WarnUserInitFailed e' \<in> set (snd (loadUserDumps env k dumps built))"
proof (induction dumps arbitrary: built)
  case Nil
  then show ?case by simp
next
  case (Cons a ds)
  show ?case
  proof (cases "variant a")
    case (MetaGroupConfig g)
    with Cons.prems have "d \<in> set ds" by auto
    from Cons.IH [OF this Cons.prems(2,3)] MetaGroupConfig show ?thesis by simp
  next
    case (UserVariant va)
    show ?thesis
    proof (cases "genericInit env va k (initArg a)")
      case (Inl e1)
      with UserVariant show ?thesis by (simp add: Let_def initArg_def)
    next
      case (Inr u)
      with Cons.prems UserVariant have "d \<noteq> a" by auto
      with Cons.prems have "d \<in> set ds" by simp
      from Cons.IH [OF this Cons.prems(2,3), of "List.insert va built"]
      obtain e' where e': "fst (loadUserDumps env k ds (List.insert va built)) = Inl (InitializeFailedWith e')"
        "WarnUserInitFailed e' \<in> set (snd (loadUserDumps env k ds (List.insert va built)))"
        by blast
      obtain r tr where l: "loadUserDumps env k ds (List.insert va built) = (r, tr)"
        by (cases "loadUserDumps env k ds (List.insert va built)")
      with e' UserVariant Inr show ?thesis by (simp add: Let_def initArg_def)
    qed
  qed
qed

lemma loadUserDumps_group_oracles:
  "loadUserDumps (env\<lparr> getGroup := gg, metaGroupInit := mi, toFixedUint8ArrayOfLength := tf \<rparr>)
       k dumps built
     = loadUserDumps env k dumps built"
  by (induction dumps arbitrary: built)
    (simp_all add: Let_def split: ConfigWrapperObjectTypes.splits sum.splits prod.splits)

lemma createMissingVariants_group_oracles:
  "createMissingVariants (env\<lparr> getGroup := gg, metaGroupInit := mi, toFixedUint8ArrayOfLength := tf \<rparr>)
       k missing
     = createMissingVariants env k missing"
  by (induction missing) (simp_all add: Let_def split: sum.splits prod.splits)

lemma loadGroupDumps_group_oracles:
  "fst (loadGroupDumps (env\<lparr> getGroup := gg, metaGroupInit := mi, toFixedUint8ArrayOfLength := tf \<rparr>)
          k dumps)
     = fst (loadGroupDumps env k dumps)
   \<and> groupsAttempted
       (snd (loadGroupDumps (env\<lparr> getGroup := gg, metaGroupInit := mi, toFixedUint8ArrayOfLength := tf \<rparr>)
              k dumps))
     = groupsAttempted (snd (loadGroupDumps env k dumps))"
proof (induction dumps)
  case Nil
  then show ?case by simp
next
  case (Cons d ds)
  let ?env' = "env\<lparr> getGroup := gg, metaGroupInit := mi, toFixedUint8ArrayOfLength := tf \<rparr>"
  show ?case
  proof (cases "variant d")
    case (UserVariant v)
    with Cons show ?thesis by simp
  next
    case (MetaGroupConfig g)
    show ?thesis
    proof (cases "fromHexString env (drop 2 g)")
      case (Inl e)
      with MetaGroupConfig show ?thesis by simp
    next
      case (Inr pk)
      obtain r tr where i: "initGroupFromDump env k g pk (dumpData d) = (r, tr)"
        by (cases "initGroupFromDump env k g pk (dumpData d)")
      obtain r' tr' where i': "initGroupFromDump ?env' k g pk (dumpData d) = (r', tr')"
        by (cases "initGroupFromDump ?env' k g pk (dumpData d)")
      from i initGroupFromDump_attempted [of env k g pk "dumpData d"]
      have a: "groupsAttempted tr = [g]" by simp
      from i' initGroupFromDump_attempted [of ?env' k g pk "dumpData d"]
      have a': "groupsAttempted tr' = [g]" by simp
      obtain s ts where l: "loadGroupDumps env k ds = (s, ts)"
        by (cases "loadGroupDumps env k ds")
      obtain s' ts' where l': "loadGroupDumps ?env' k ds = (s', ts')"
        by (cases "loadGroupDumps ?env' k ds")
      from Cons.IH l l' have ih: "s' = s" "groupsAttempted ts' = groupsAttempted ts" by simp_all
      have f: "fromHexString ?env' (drop 2 g) = Inr pk" using Inr by simp
      have o: "loadGroupDumps env k (d # ds)
          = (s, tr @ (case r of Inl e \<Rightarrow> [WarnGroupInitFailed (variant d) e] | Inr u \<Rightarrow> []) @ ts)"
        using MetaGroupConfig Inr i l by (cases r) simp_all
      have o': "loadGroupDumps ?env' k (d # ds)
          = (s', tr' @ (case r' of Inl e \<Rightarrow> [WarnGroupInitFailed (variant d) e] | Inr u \<Rightarrow> []) @ ts')"
        using MetaGroupConfig f i' l' by (cases r') simp_all
      have w: "groupsAttempted (case r of Inl e \<Rightarrow> [WarnGroupInitFailed (variant d) e] | Inr u \<Rightarrow> []) = []"
        by (cases r) simp_all
      have w': "groupsAttempted (case r' of Inl e \<Rightarrow> [WarnGroupInitFailed (variant d) e] | Inr u \<Rightarrow> []) = []"
        by (cases r') simp_all
      from o o' ih a a' w w' show ?thesis by (simp add: groupsAttempted_append)
    qed
  qed
qed

lemma initialize_group_oracles:
  "fst (initializeLibSessionUtilWrappers
          (env\<lparr> getGroup := gg, metaGroupInit := mi, toFixedUint8ArrayOfLength := tf \<rparr>))
     = fst (initializeLibSessionUtilWrappers env)
   \<and> groupsAttempted (snd (initializeLibSessionUtilWrappers
          (env\<lparr> getGroup := gg, metaGroupInit := mi, toFixedUint8ArrayOfLength := tf \<rparr>)))
     = groupsAttempted (snd (initializeLibSessionUtilWrappers env))"
proof -
  let ?env' = "env\<lparr> getGroup := gg, metaGroupInit := mi, toFixedUint8ArrayOfLength := tf \<rparr>"
  note u = loadUserDumps_group_oracles
  note m = createMissingVariants_group_oracles
  have g: "fst (loadGroupDumps ?env' k dumps) = fst (loadGroupDumps env k dumps)
     \<and> groupsAttempted (snd (loadGroupDumps ?env' k dumps))
        = groupsAttempted (snd (loadGroupDumps env k dumps))" for k dumps
    by (rule loadGroupDumps_group_oracles)
  show ?thesis
  proof (cases "getUserED25519KeyPairBytes env")
    case (Inl e)
    then show ?thesis by (simp add: initializeLibSessionUtilWrappers_def)
  next
    case kp: (Inr keypair)
    show ?thesis
    proof (cases "privKeyOf keypair")
      case None
      with kp show ?thesis by (simp add: initializeLibSessionUtilWrappers_def)
    next
      case (Some k)
      show ?thesis
      proof (cases "getAllDumpsWithData env")
        case (Inl e)
        with kp Some show ?thesis by (simp add: initializeLibSessionUtilWrappers_def)
      next
        case ds: (Inr dumps)
        obtain r1 tr1 where l1: "loadUserDumps env k dumps [] = (r1, tr1)"
          by (cases "loadUserDumps env k dumps []")
        show ?thesis
        proof (cases r1)
          case (Inl e)
          with kp Some ds l1 u show ?thesis by (simp add: initializeLibSessionUtilWrappers_def)
        next
          case b: (Inr built)
          obtain r2 tr2 where l2:
            "createMissingVariants env k (difference requiredUserVariants built) = (r2, tr2)"
            by (cases "createMissingVariants env k (difference requiredUserVariants built)")
          show ?thesis
          proof (cases r2)
            case (Inl e)
            with kp Some ds l1 b l2 u m show ?thesis
              by (simp add: initializeLibSessionUtilWrappers_def)
          next
            case (Inr x)
            obtain r3 tr3 where l3: "loadGroupDumps env k dumps = (r3, tr3)"
              by (cases "loadGroupDumps env k dumps")
            obtain r3' tr3' where l3': "loadGroupDumps ?env' k dumps = (r3', tr3')"
              by (cases "loadGroupDumps ?env' k dumps")
            from g [of k dumps] l3 l3' have e3: "r3' = r3" "groupsAttempted tr3' = groupsAttempted tr3"
              by simp_all
            from kp Some ds l1 b l2 Inr l3 have w: "initializeLibSessionUtilWrappers env = (r3, tr1 @ tr2 @ tr3)"
              by (simp add: initializeLibSessionUtilWrappers_def)
            from kp Some ds l1 b l2 Inr l3' u m
            have w': "initializeLibSessionUtilWrappers ?env' = (r3', tr1 @ tr2 @ tr3')"
              by (simp add: initializeLibSessionUtilWrappers_def)
            from w w' e3 show ?thesis by (simp add: groupsAttempted_append)
          qed
        qed
      qed
    qed
  qed
qed


lemma loadGroupDumps_decode_fails:
  "hexDecodes env pre \<Longrightarrow> variant d = MetaGroupConfig g \<Longrightarrow>
   fromHexString env (drop 2 g) = Inl e \<Longrightarrow>
     fst (loadGroupDumps env k (pre @ d # post)) = Inl e
     \<and> groupsAttempted (snd (loadGroupDumps env k (pre @ d # post))) = groupsOf pre"
proof (induction pre)
  case Nil
  then show ?case by simp
next
  case (Cons a ds)
  show ?case
  proof (cases "variant a")
    case (UserVariant v)
    with Cons show ?thesis by (simp add: hexDecodes_def)
  next
    case (MetaGroupConfig ga)
    with Cons.prems(1) have h: "\<not> isl (fromHexString env (drop 2 ga))" and hs: "hexDecodes env ds"
      by (simp_all add: hexDecodes_def)
    from h obtain pka where pka: "fromHexString env (drop 2 ga) = Inr pka"
      by (cases "fromHexString env (drop 2 ga)") simp_all
    obtain r tr where i: "initGroupFromDump env k ga pka (dumpData a) = (r, tr)"
      by (cases "initGroupFromDump env k ga pka (dumpData a)")
    with initGroupFromDump_attempted [of env k ga pka "dumpData a"]
    have at: "groupsAttempted tr = [ga]" by simp
    obtain r' tr' where l: "loadGroupDumps env k (ds @ d # post) = (r', tr')"
      by (cases "loadGroupDumps env k (ds @ d # post)")
    with Cons.IH [OF hs Cons.prems(2,3)]
    have ih: "r' = Inl e" "groupsAttempted tr' = groupsOf ds" by simp_all
    show ?thesis
      using MetaGroupConfig pka i l at ih
      by (cases r) (simp_all add: groupsAttempted_append)
  qed
qed

text \<open>
  C1, as amended.  (1) Without the account's signing key the initialization raises at once
  and nothing is initialised.  (2) Failures of loading a group (the lookup of the group,
  the length checks, the group's \<open>init\<close>) are isolated: once the user variants are loaded
  and the missing ones created, and the group pubkeys decode, the initialization returns
  normally and the loading of every group with a dump has been started, whichever of them
  fail; each failure is logged as a warning.  (3) A user-scoped dump whose \<open>init\<close>
  rejects is not isolated: the error is logged and raised again, the initialization ends
  with it and no group is loaded.  (4) Without any proviso, what the group lookup, the
  length check and the group's \<open>init\<close> do changes neither the outcome of the
  initialization nor which groups have their loading started.  (5) The decoding of a
  group's pubkey stands before the \<^verbatim>\<open>try\<close>: once the user variants are loaded and the
  missing ones created, at the first group whose pubkey does not decode the initialization
  ends with that error, the groups before it having been started.
\<close>

theorem initialize_failure_semantics:
  "(getUserED25519KeyPairBytes env = Inr keypair \<and> privKeyOf keypair = None \<longrightarrow>
      initializeLibSessionUtilWrappers env
        = (Inl (Error ''edkeypair not found for current user''), []))
   \<and> (getUserED25519KeyPairBytes env = Inr keypair \<and> privKeyOf keypair = Some k
       \<and> getAllDumpsWithData env = Inr dumps
       \<and> fst (loadUserDumps env k dumps []) = Inr built
       \<and> fst (createMissingVariants env k (difference requiredUserVariants built)) = Inr ()
       \<and> hexDecodes env dumps \<longrightarrow>
      fst (initializeLibSessionUtilWrappers env) = Inr ()
      \<and> groupsAttempted (snd (initializeLibSessionUtilWrappers env)) = groupsOf dumps
      \<and> (\<forall>gd g pk ge. gd \<in> set dumps \<and> variant gd = MetaGroupConfig g
            \<and> fromHexString env (drop 2 g) = Inr pk
            \<and> fst (initGroupFromDump env k g pk (dumpData gd)) = Inl ge \<longrightarrow>
          WarnGroupInitFailed (MetaGroupConfig g) ge
            \<in> set (snd (initializeLibSessionUtilWrappers env))))
   \<and> (getUserED25519KeyPairBytes env = Inr keypair \<and> privKeyOf keypair = Some k
       \<and> getAllDumpsWithData env = Inr dumps
       \<and> d \<in> set dumps \<and> variant d = UserVariant v
       \<and> genericInit env v k (initArg d) = Inl e \<longrightarrow>
      (\<exists>e'. fst (initializeLibSessionUtilWrappers env) = Inl (InitializeFailedWith e')
         \<and> WarnUserInitFailed e' \<in> set (snd (initializeLibSessionUtilWrappers env)))
      \<and> groupsAttempted (snd (initializeLibSessionUtilWrappers env)) = [])
   \<and> (\<forall>gg mi tf.
        fst (initializeLibSessionUtilWrappers
               (env\<lparr> getGroup := gg, metaGroupInit := mi, toFixedUint8ArrayOfLength := tf \<rparr>))
          = fst (initializeLibSessionUtilWrappers env)
        \<and> groupsAttempted (snd (initializeLibSessionUtilWrappers
               (env\<lparr> getGroup := gg, metaGroupInit := mi, toFixedUint8ArrayOfLength := tf \<rparr>)))
          = groupsAttempted (snd (initializeLibSessionUtilWrappers env)))
   \<and> (getUserED25519KeyPairBytes env = Inr keypair \<and> privKeyOf keypair = Some k
       \<and> getAllDumpsWithData env = Inr (pre @ bd # post)
       \<and> fst (loadUserDumps env k (pre @ bd # post) []) = Inr built
       \<and> fst (createMissingVariants env k (difference requiredUserVariants built)) = Inr ()
       \<and> hexDecodes env pre \<and> variant bd = MetaGroupConfig bg
       \<and> fromHexString env (drop 2 bg) = Inl he \<longrightarrow>
      fst (initializeLibSessionUtilWrappers env) = Inl he
      \<and> groupsAttempted (snd (initializeLibSessionUtilWrappers env)) = groupsOf pre)"
proof -
  have a: "initializeLibSessionUtilWrappers env
        = (Inl (Error ''edkeypair not found for current user''), [])"
    if "getUserED25519KeyPairBytes env = Inr keypair" "privKeyOf keypair = None"
    using that by (simp add: initializeLibSessionUtilWrappers_def)
  have b: "fst (initializeLibSessionUtilWrappers env) = Inr ()
      \<and> groupsAttempted (snd (initializeLibSessionUtilWrappers env)) = groupsOf dumps
      \<and> (\<forall>gd g pk ge. gd \<in> set dumps \<and> variant gd = MetaGroupConfig g
            \<and> fromHexString env (drop 2 g) = Inr pk
            \<and> fst (initGroupFromDump env k g pk (dumpData gd)) = Inl ge \<longrightarrow>
          WarnGroupInitFailed (MetaGroupConfig g) ge
            \<in> set (snd (initializeLibSessionUtilWrappers env)))"
    if kp: "getUserED25519KeyPairBytes env = Inr keypair" "privKeyOf keypair = Some k"
      and ds: "getAllDumpsWithData env = Inr dumps"
      and u: "fst (loadUserDumps env k dumps []) = Inr built"
      and m: "fst (createMissingVariants env k (difference requiredUserVariants built)) = Inr ()"
      and h: "hexDecodes env dumps"
  proof -
    obtain tr1 where l1: "loadUserDumps env k dumps [] = (Inr built, tr1)"
      using u by (cases "loadUserDumps env k dumps []") simp
    obtain tr2 where l2: "createMissingVariants env k (difference requiredUserVariants built) = (Inr (), tr2)"
      using m by (cases "createMissingVariants env k (difference requiredUserVariants built)") simp
    obtain r3 tr3 where l3: "loadGroupDumps env k dumps = (r3, tr3)"
      by (cases "loadGroupDumps env k dumps")
    from loadGroupDumps_isolated [OF h, of k] l3
    have r3: "r3 = Inr ()" and g3: "groupsAttempted tr3 = groupsOf dumps" by simp_all
    from loadUserDumps_no_groups [of env k dumps "[]"] l1 have g1: "groupsAttempted tr1 = []" by simp
    from createMissingVariants_no_groups [of env k "difference requiredUserVariants built"] l2
    have g2: "groupsAttempted tr2 = []" by simp
    from kp ds l1 l2 l3 have w: "initializeLibSessionUtilWrappers env = (r3, tr1 @ tr2 @ tr3)"
      by (simp add: initializeLibSessionUtilWrappers_def)
    have lg: "WarnGroupInitFailed (MetaGroupConfig g) ge \<in> set (snd (initializeLibSessionUtilWrappers env))"
      if "gd \<in> set dumps" "variant gd = MetaGroupConfig g" "fromHexString env (drop 2 g) = Inr pk"
        "fst (initGroupFromDump env k g pk (dumpData gd)) = Inl ge" for gd g pk ge
    proof -
      from loadGroupDumps_logged [OF h that] l3
      have "WarnGroupInitFailed (MetaGroupConfig g) ge \<in> set tr3" by simp
      with w show ?thesis by simp
    qed
    from w r3 g1 g2 g3 have "fst (initializeLibSessionUtilWrappers env) = Inr ()
      \<and> groupsAttempted (snd (initializeLibSessionUtilWrappers env)) = groupsOf dumps"
      by (simp add: groupsAttempted_append)
    with lg show ?thesis by blast
  qed
  have c: "(\<exists>e'. fst (initializeLibSessionUtilWrappers env) = Inl (InitializeFailedWith e')
         \<and> WarnUserInitFailed e' \<in> set (snd (initializeLibSessionUtilWrappers env)))
      \<and> groupsAttempted (snd (initializeLibSessionUtilWrappers env)) = []"
    if kp: "getUserED25519KeyPairBytes env = Inr keypair" "privKeyOf keypair = Some k"
      and ds: "getAllDumpsWithData env = Inr dumps"
      and d: "d \<in> set dumps" "variant d = UserVariant v"
      and f: "genericInit env v k (initArg d) = Inl e"
  proof -
    from loadUserDumps_propagates [OF d f, of "[]"] obtain e' tr1 where
      l1: "loadUserDumps env k dumps [] = (Inl (InitializeFailedWith e'), tr1)"
      and w1: "WarnUserInitFailed e' \<in> set tr1"
      by (cases "loadUserDumps env k dumps []") auto
    from loadUserDumps_no_groups [of env k dumps "[]"] l1 have g1: "groupsAttempted tr1 = []" by simp
    from kp ds l1 have "initializeLibSessionUtilWrappers env = (Inl (InitializeFailedWith e'), tr1)"
      by (simp add: initializeLibSessionUtilWrappers_def)
    with g1 w1 show ?thesis by simp
  qed
  have n: "fst (initializeLibSessionUtilWrappers
               (env\<lparr> getGroup := gg, metaGroupInit := mi, toFixedUint8ArrayOfLength := tf \<rparr>))
          = fst (initializeLibSessionUtilWrappers env)
        \<and> groupsAttempted (snd (initializeLibSessionUtilWrappers
               (env\<lparr> getGroup := gg, metaGroupInit := mi, toFixedUint8ArrayOfLength := tf \<rparr>)))
          = groupsAttempted (snd (initializeLibSessionUtilWrappers env))" for gg mi tf
    by (rule initialize_group_oracles)
  have x: "fst (initializeLibSessionUtilWrappers env) = Inl he
      \<and> groupsAttempted (snd (initializeLibSessionUtilWrappers env)) = groupsOf pre"
    if kp: "getUserED25519KeyPairBytes env = Inr keypair" "privKeyOf keypair = Some k"
      and ds: "getAllDumpsWithData env = Inr (pre @ bd # post)"
      and u: "fst (loadUserDumps env k (pre @ bd # post) []) = Inr built"
      and m: "fst (createMissingVariants env k (difference requiredUserVariants built)) = Inr ()"
      and h: "hexDecodes env pre" "variant bd = MetaGroupConfig bg"
        "fromHexString env (drop 2 bg) = Inl he"
  proof -
    let ?all = "pre @ bd # post"
    obtain tr1 where l1: "loadUserDumps env k ?all [] = (Inr built, tr1)"
      using u by (cases "loadUserDumps env k ?all []") simp
    obtain tr2 where l2: "createMissingVariants env k (difference requiredUserVariants built) = (Inr (), tr2)"
      using m by (cases "createMissingVariants env k (difference requiredUserVariants built)") simp
    obtain r3 tr3 where l3: "loadGroupDumps env k ?all = (r3, tr3)"
      by (cases "loadGroupDumps env k ?all")
    from loadGroupDumps_decode_fails [OF h, of k post] l3
    have r3: "r3 = Inl he" and g3: "groupsAttempted tr3 = groupsOf pre" by simp_all
    from loadUserDumps_no_groups [of env k ?all "[]"] l1 have g1: "groupsAttempted tr1 = []" by simp
    from createMissingVariants_no_groups [of env k "difference requiredUserVariants built"] l2
    have g2: "groupsAttempted tr2 = []" by simp
    from kp ds l1 l2 l3 have "initializeLibSessionUtilWrappers env = (r3, tr1 @ tr2 @ tr3)"
      by (simp add: initializeLibSessionUtilWrappers_def)
    with r3 g1 g2 g3 show ?thesis by (simp add: groupsAttempted_append)
  qed
  from a b c n x show ?thesis by blast
qed

lemma length_demoKey: "length demoKey = 64"
  by (simp add: demoKey_def)

lemma demo_loadUserDumps:
  "loadUserDumps (demoInitEnv [] bad) demoKey demoDumps []
     = (Inr [ContactsConfig, UserConfig],
        [GenericInit UserConfig demoKey (Some [9]), GenericInit ContactsConfig demoKey None])"
  by (simp add: demoInitEnv_def demoDumps_def)

text \<open>
  C1 as stated fails: when the stored \<open>UserConfig\<close> dump does not load, the
  initialization ends with an error after the warning; the \<open>ContactsConfig\<close> dump, the
  missing variants and the two groups are never initialised.
\<close>

theorem initialize_counterexample:
  "initializeLibSessionUtilWrappers (demoInitEnv [UserConfig] [])
     = (Inl (InitializeFailedWith (Error ''corrupt dump'')),
        [GenericInit UserConfig demoKey (Some [9]), WarnUserInitFailed (Error ''corrupt dump'')])"
  by (simp add: initializeLibSessionUtilWrappers_def demoInitEnv_def demoDumps_def privKeyOf_def)

theorem initialize_failure_semantics_witness:
  "getUserED25519KeyPairBytes (demoInitEnv [] [''03g1''])
       = Inr (Some \<lparr> pubKeyBytes = [1], privKeyBytes = Some demoKey \<rparr>)
   \<and> privKeyOf (Some \<lparr> pubKeyBytes = [1], privKeyBytes = Some demoKey \<rparr>) = Some demoKey
   \<and> getAllDumpsWithData (demoInitEnv [] [''03g1'']) = Inr demoDumps
   \<and> fst (loadUserDumps (demoInitEnv [] [''03g1'']) demoKey demoDumps [])
       = Inr [ContactsConfig, UserConfig]
   \<and> fst (createMissingVariants (demoInitEnv [] [''03g1'']) demoKey
            (difference requiredUserVariants [ContactsConfig, UserConfig])) = Inr ()
   \<and> hexDecodes (demoInitEnv [] [''03g1'']) demoDumps
   \<and> metaGroupInit (demoInitEnv [] [''03g1'']) ''03g1''
        \<lparr> groupEd25519Pubkey = replicate 32 0, groupEd25519Secretkey = None,
          userEd25519Secretkey = demoKey, metaDumped = [4] \<rparr> = Inl (Error ''bad group dump'')
   \<and> fst (initializeLibSessionUtilWrappers (demoInitEnv [] [''03g1''])) = Inr ()
   \<and> groupsAttempted (snd (initializeLibSessionUtilWrappers (demoInitEnv [] [''03g1'']))) = [''03g1'', ''03g2'']
   \<and> WarnGroupInitFailed (MetaGroupConfig ''03g1'') (Error ''bad group dump'')
        \<in> set (snd (initializeLibSessionUtilWrappers (demoInitEnv [] [''03g1''])))
   \<and> privKeyOf None = None
   \<and> initializeLibSessionUtilWrappers ((demoInitEnv [] [])\<lparr> getUserED25519KeyPairBytes := Inr None \<rparr>)
       = (Inl (Error ''edkeypair not found for current user''), [])
   \<and> genericInit (demoInitEnv [UserConfig] []) UserConfig demoKey
        (initArg \<lparr> publicKey = ''05alice'', variant = UserVariant UserConfig, dumpData = [9] \<rparr>)
       = Inl (Error ''corrupt dump'')
   \<and> fst (initializeLibSessionUtilWrappers (demoInitEnv [UserConfig] []))
       = Inl (InitializeFailedWith (Error ''corrupt dump''))
   \<and> groupsAttempted (snd (initializeLibSessionUtilWrappers (demoInitEnv [UserConfig] []))) = []
   \<and> fromHexString demoBadHexEnv (drop 2 ''03g2'') = Inl (Error ''bad hex'')
   \<and> fst (initializeLibSessionUtilWrappers demoBadHexEnv) = Inl (Error ''bad hex'')
   \<and> groupsAttempted (snd (initializeLibSessionUtilWrappers demoBadHexEnv)) = [''03g1'']"
proof -
  let ?kp = "Some \<lparr> pubKeyBytes = [1], privKeyBytes = Some demoKey \<rparr>"
  let ?e1 = "demoInitEnv [] [''03g1'']"
  let ?e2 = "(demoInitEnv [] [])\<lparr> getUserED25519KeyPairBytes := Inr None \<rparr>"
  let ?e3 = "demoInitEnv [UserConfig] []"
  let ?d = "\<lparr> publicKey = ''05alice'', variant = UserVariant UserConfig, dumpData = [9] \<rparr>"
  have h1: "getUserED25519KeyPairBytes ?e1 = Inr ?kp" by (simp add: demoInitEnv_def)
  have h2: "privKeyOf ?kp = Some demoKey" by (simp add: privKeyOf_def)
  have h3: "getAllDumpsWithData ?e1 = Inr demoDumps" by (simp add: demoInitEnv_def)
  have h4: "fst (loadUserDumps ?e1 demoKey demoDumps []) = Inr [ContactsConfig, UserConfig]"
    by (simp add: demo_loadUserDumps)
  have h5: "fst (createMissingVariants ?e1 demoKey
            (difference requiredUserVariants [ContactsConfig, UserConfig])) = Inr ()"
    by (simp add: difference_def requiredUserVariants_def demoInitEnv_def)
  have h6: "hexDecodes ?e1 demoDumps"
    by (simp add: hexDecodes_def demoDumps_def demoInitEnv_def)
  have h7: "metaGroupInit ?e1 ''03g1''
        \<lparr> groupEd25519Pubkey = replicate 32 0, groupEd25519Secretkey = None,
          userEd25519Secretkey = demoKey, metaDumped = [4] \<rparr> = Inl (Error ''bad group dump'')"
    by (simp add: demoInitEnv_def)
  have g: "groupsOf demoDumps = [''03g1'', ''03g2'']" by (simp add: demoDumps_def)
  from initialize_failure_semantics [of ?e1 ?kp demoKey demoDumps "[ContactsConfig, UserConfig]"]
    h1 h2 h3 h4 h5 h6 g
  have c1: "fst (initializeLibSessionUtilWrappers ?e1) = Inr ()
     \<and> groupsAttempted (snd (initializeLibSessionUtilWrappers ?e1)) = [''03g1'', ''03g2'']"
    by simp
  let ?gd = "\<lparr> publicKey = ''03g1'', variant = MetaGroupConfig ''03g1'', dumpData = [4] \<rparr>"
  have w1: "?gd \<in> set demoDumps" by (simp add: demoDumps_def)
  have w2: "fromHexString ?e1 (drop 2 ''03g1'') = Inr (replicate 32 0)"
    by (simp add: demoInitEnv_def)
  have w3: "fst (initGroupFromDump ?e1 demoKey ''03g1'' (replicate 32 0) (dumpData ?gd))
      = Inl (Error ''bad group dump'')"
    by (simp add: initGroupFromDump_def demoInitEnv_def length_demoKey)
  from initialize_failure_semantics [of ?e1 ?kp demoKey demoDumps "[ContactsConfig, UserConfig]"]
    h1 h2 h3 h4 h5 h6
  have "\<forall>gd g pk ge. gd \<in> set demoDumps \<and> variant gd = MetaGroupConfig g
            \<and> fromHexString ?e1 (drop 2 g) = Inr pk
            \<and> fst (initGroupFromDump ?e1 demoKey g pk (dumpData gd)) = Inl ge \<longrightarrow>
          WarnGroupInitFailed (MetaGroupConfig g) ge
            \<in> set (snd (initializeLibSessionUtilWrappers ?e1))"
    by blast
  with w1 w2 w3 have c1w: "WarnGroupInitFailed (MetaGroupConfig ''03g1'') (Error ''bad group dump'')
        \<in> set (snd (initializeLibSessionUtilWrappers ?e1))"
    by fastforce
  have k1: "getUserED25519KeyPairBytes ?e2 = Inr None" by simp
  have k2: "privKeyOf None = None" by (simp add: privKeyOf_def)
  from initialize_failure_semantics [of ?e2 None] k1 k2
  have c2: "initializeLibSessionUtilWrappers ?e2
       = (Inl (Error ''edkeypair not found for current user''), [])"
    by blast
  have u1: "getUserED25519KeyPairBytes ?e3 = Inr ?kp" by (simp add: demoInitEnv_def)
  have u3: "getAllDumpsWithData ?e3 = Inr demoDumps" by (simp add: demoInitEnv_def)
  have u4: "?d \<in> set demoDumps" by (simp add: demoDumps_def)
  have u5: "variant ?d = UserVariant UserConfig" by simp
  have u6: "genericInit ?e3 UserConfig demoKey (initArg ?d) = Inl (Error ''corrupt dump'')"
    by (simp add: demoInitEnv_def)
  from initialize_failure_semantics [of ?e3 ?kp demoKey demoDumps _ ?d UserConfig "Error ''corrupt dump''"]
    u1 h2 u3 u4 u5 u6
  have c3: "(\<exists>e'. fst (initializeLibSessionUtilWrappers ?e3) = Inl (InitializeFailedWith e')
         \<and> WarnUserInitFailed e' \<in> set (snd (initializeLibSessionUtilWrappers ?e3)))
      \<and> groupsAttempted (snd (initializeLibSessionUtilWrappers ?e3)) = []"
    by blast
  have c3': "fst (initializeLibSessionUtilWrappers ?e3) = Inl (InitializeFailedWith (Error ''corrupt dump''))"
    by (simp add: initializeLibSessionUtilWrappers_def demoInitEnv_def demoDumps_def privKeyOf_def)
  let ?pre = "[\<lparr> publicKey = ''05alice'', variant = UserVariant UserConfig, dumpData = [9] \<rparr>,
      \<lparr> publicKey = ''05alice'', variant = UserVariant ContactsConfig, dumpData = [] \<rparr>,
      \<lparr> publicKey = ''03g1'', variant = MetaGroupConfig ''03g1'', dumpData = [4] \<rparr>]"
  let ?bd = "\<lparr> publicKey = ''03g2'', variant = MetaGroupConfig ''03g2'', dumpData = [5] \<rparr>"
  have split: "demoDumps = ?pre @ ?bd # []" by (simp add: demoDumps_def)
  have x1: "getUserED25519KeyPairBytes demoBadHexEnv = Inr ?kp"
    by (simp add: demoBadHexEnv_def demoInitEnv_def)
  have x3: "getAllDumpsWithData demoBadHexEnv = Inr (?pre @ ?bd # [])"
    by (simp add: demoBadHexEnv_def demoInitEnv_def demoDumps_def)
  have x4: "fst (loadUserDumps demoBadHexEnv demoKey (?pre @ ?bd # []) [])
      = Inr [ContactsConfig, UserConfig]"
    by (simp add: demoBadHexEnv_def demoInitEnv_def)
  have x5: "fst (createMissingVariants demoBadHexEnv demoKey
            (difference requiredUserVariants [ContactsConfig, UserConfig])) = Inr ()"
    by (simp add: difference_def requiredUserVariants_def demoBadHexEnv_def demoInitEnv_def)
  have x6: "hexDecodes demoBadHexEnv ?pre"
    by (simp add: hexDecodes_def demoBadHexEnv_def)
  have x7: "variant ?bd = MetaGroupConfig ''03g2''" by simp
  have x8: "fromHexString demoBadHexEnv (drop 2 ''03g2'') = Inl (Error ''bad hex'')"
    by (simp add: demoBadHexEnv_def)
  have x9: "groupsOf ?pre = [''03g1'']" by simp
  from initialize_failure_semantics
    [of demoBadHexEnv ?kp demoKey _ "[ContactsConfig, UserConfig]" _ _ _ ?pre ?bd "[]"
        "''03g2''" "Error ''bad hex''"]
    x1 h2 x3 x4 x5 x6 x7 x8
  have "fst (initializeLibSessionUtilWrappers demoBadHexEnv) = Inl (Error ''bad hex'')
      \<and> groupsAttempted (snd (initializeLibSessionUtilWrappers demoBadHexEnv)) = groupsOf ?pre"
    by blast
  with x9 have cx: "fst (initializeLibSessionUtilWrappers demoBadHexEnv) = Inl (Error ''bad hex'')
      \<and> groupsAttempted (snd (initializeLibSessionUtilWrappers demoBadHexEnv)) = [''03g1'']"
    by simp
  from h1 h2 h3 h4 h5 h6 h7 c1 c1w k2 c2 u6 c3 c3' x8 cx show ?thesis by blast
qed

section \<open>Properties of the open-group sends\<close>

lemma openGroupSent_invalid:
  "serverId result \<in> {None, Some 0, Some (- 1)} \<Longrightarrow>
     openGroupSent env msg roomInfos result tr
       = (handleOpenGroupSentFailure env msg (InvalidServerIdError (serverId result)),
          tr @ [WarnFailedOpenGroup roomInfos (InvalidServerIdError (serverId result)),
                HandleOpenGroupSentFailure msg (InvalidServerIdError (serverId result))])"
  by (auto simp: openGroupSent_def openGroupSendFailed_def)

text \<open>
  C2, as amended.  For a send through \<open>sendToOpenGroupV2\<close> (of a message without a
  reaction) or \<open>sendToOpenGroupV2BlindedRequest\<close> (to a blinded id), when the transport
  returns an absent server-assigned identifier, 0 or -1, the send is a protocol violation:
  after the transport call come the warning and the failure handler, called with the
  invalid-server-id error, and the success handler is never called.
\<close>

theorem openGroup_invalid_serverId:
  "(reaction msg = None
      \<and> senderSendToOpenGroupV2 env msg roomInfos blinded filesToLink = Inr result
      \<and> serverId result \<in> {None, Some 0, Some (- 1)} \<longrightarrow>
    snd (sendToOpenGroupV2 env msg roomInfos blinded filesToLink)
      = [SendToOpenGroupV2 msg roomInfos blinded filesToLink,
         WarnFailedOpenGroup roomInfos (InvalidServerIdError (serverId result)),
         HandleOpenGroupSentFailure msg (InvalidServerIdError (serverId result))]
    \<and> list_ex isOpenGroupFailure (snd (sendToOpenGroupV2 env msg roomInfos blinded filesToLink))
    \<and> \<not> list_ex isPublicSuccess (snd (sendToOpenGroupV2 env msg roomInfos blinded filesToLink)))
   \<and> (isBlinded env recipientBlindedId
      \<and> senderSendToOpenGroupV2BlindedRequest env encryptedContent roomInfos recipientBlindedId
           = Inr result
      \<and> serverId result \<in> {None, Some 0, Some (- 1)} \<longrightarrow>
    snd (sendToOpenGroupV2BlindedRequest env encryptedContent msg recipientBlindedId roomInfos)
      = [SendToOpenGroupV2BlindedRequest encryptedContent roomInfos recipientBlindedId,
         WarnFailedOpenGroup roomInfos (InvalidServerIdError (serverId result)),
         HandleOpenGroupSentFailure msg (InvalidServerIdError (serverId result))]
    \<and> list_ex isOpenGroupFailure
          (snd (sendToOpenGroupV2BlindedRequest env encryptedContent msg recipientBlindedId roomInfos))
    \<and> \<not> list_ex isPublicSuccess
          (snd (sendToOpenGroupV2BlindedRequest env encryptedContent msg recipientBlindedId roomInfos)))"
proof -
  have a: "snd (sendToOpenGroupV2 env msg roomInfos blinded filesToLink)
      = [SendToOpenGroupV2 msg roomInfos blinded filesToLink,
         WarnFailedOpenGroup roomInfos (InvalidServerIdError (serverId result)),
         HandleOpenGroupSentFailure msg (InvalidServerIdError (serverId result))]"
    if "reaction msg = None"
      "senderSendToOpenGroupV2 env msg roomInfos blinded filesToLink = Inr result"
      "serverId result \<in> {None, Some 0, Some (- 1)}"
    using that by (simp add: sendToOpenGroupV2_def openGroupSent_invalid)
  have b: "snd (sendToOpenGroupV2BlindedRequest env encryptedContent msg recipientBlindedId roomInfos)
      = [SendToOpenGroupV2BlindedRequest encryptedContent roomInfos recipientBlindedId,
         WarnFailedOpenGroup roomInfos (InvalidServerIdError (serverId result)),
         HandleOpenGroupSentFailure msg (InvalidServerIdError (serverId result))]"
    if "isBlinded env recipientBlindedId"
      "senderSendToOpenGroupV2BlindedRequest env encryptedContent roomInfos recipientBlindedId
           = Inr result"
      "serverId result \<in> {None, Some 0, Some (- 1)}"
    using that by (simp add: sendToOpenGroupV2BlindedRequest_def openGroupSent_invalid)
  show ?thesis
  proof (intro conjI impI)
    assume h: "reaction msg = None
      \<and> senderSendToOpenGroupV2 env msg roomInfos blinded filesToLink = Inr result
      \<and> serverId result \<in> {None, Some 0, Some (- 1)}"
    then have t: "snd (sendToOpenGroupV2 env msg roomInfos blinded filesToLink)
      = [SendToOpenGroupV2 msg roomInfos blinded filesToLink,
         WarnFailedOpenGroup roomInfos (InvalidServerIdError (serverId result)),
         HandleOpenGroupSentFailure msg (InvalidServerIdError (serverId result))]"
      using a by blast
    show "snd (sendToOpenGroupV2 env msg roomInfos blinded filesToLink)
      = [SendToOpenGroupV2 msg roomInfos blinded filesToLink,
         WarnFailedOpenGroup roomInfos (InvalidServerIdError (serverId result)),
         HandleOpenGroupSentFailure msg (InvalidServerIdError (serverId result))]"
      by (rule t)
    show "list_ex isOpenGroupFailure (snd (sendToOpenGroupV2 env msg roomInfos blinded filesToLink))"
      by (simp add: t)
    show "\<not> list_ex isPublicSuccess (snd (sendToOpenGroupV2 env msg roomInfos blinded filesToLink))"
      by (simp add: t)
  next
    assume h: "isBlinded env recipientBlindedId
      \<and> senderSendToOpenGroupV2BlindedRequest env encryptedContent roomInfos recipientBlindedId
           = Inr result
      \<and> serverId result \<in> {None, Some 0, Some (- 1)}"
    then have t: "snd (sendToOpenGroupV2BlindedRequest env encryptedContent msg recipientBlindedId roomInfos)
      = [SendToOpenGroupV2BlindedRequest encryptedContent roomInfos recipientBlindedId,
         WarnFailedOpenGroup roomInfos (InvalidServerIdError (serverId result)),
         HandleOpenGroupSentFailure msg (InvalidServerIdError (serverId result))]"
      using b by blast
    show "snd (sendToOpenGroupV2BlindedRequest env encryptedContent msg recipientBlindedId roomInfos)
      = [SendToOpenGroupV2BlindedRequest encryptedContent roomInfos recipientBlindedId,
         WarnFailedOpenGroup roomInfos (InvalidServerIdError (serverId result)),
         HandleOpenGroupSentFailure msg (InvalidServerIdError (serverId result))]"
      by (rule t)
    show "list_ex isOpenGroupFailure
          (snd (sendToOpenGroupV2BlindedRequest env encryptedContent msg recipientBlindedId roomInfos))"
      by (simp add: t)
    show "\<not> list_ex isPublicSuccess
          (snd (sendToOpenGroupV2BlindedRequest env encryptedContent msg recipientBlindedId roomInfos))"
      by (simp add: t)
  qed
qed



text \<open>
  C2 as stated fails at the non-positive identifier -2: both sends accept it and call the
  success handler with it; the failure handler is not called.
\<close>

theorem openGroup_invalid_serverId_counterexample:
  "senderSendToOpenGroupV2 (demoOpenGroupEnv (Some (- 2))) (demoOpenMessage None) demoRoom False [3]
     = Inr \<lparr> serverId = Some (- 2), sentTimestamp = Some 1000 \<rparr>
   \<and> sendToOpenGroupV2 (demoOpenGroupEnv (Some (- 2))) (demoOpenMessage None) demoRoom False [3]
     = (Inr (),
        [SendToOpenGroupV2 (demoOpenMessage None) demoRoom False [3],
         HandlePublicMessageSentSuccess ''m1'' (- 2) (Some 1000)])
   \<and> sendToOpenGroupV2BlindedRequest (demoOpenGroupEnv (Some (- 2))) [1, 2] (demoOpenMessage None)
        ''15ab'' demoRoom
     = (Inr (),
        [SendToOpenGroupV2BlindedRequest [1, 2] demoRoom ''15ab'',
         HandlePublicMessageSentSuccess ''m1'' (- 2) (Some 1000)])"
  by (simp add: sendToOpenGroupV2_def sendToOpenGroupV2BlindedRequest_def openGroupSent_def
      demoOpenGroupEnv_def demoOpenMessage_def)

theorem openGroup_invalid_serverId_witness:
  "reaction (demoOpenMessage None) = None
   \<and> senderSendToOpenGroupV2 (demoOpenGroupEnv (Some (- 1))) (demoOpenMessage None) demoRoom False [3]
       = Inr \<lparr> serverId = Some (- 1), sentTimestamp = Some 1000 \<rparr>
   \<and> snd (sendToOpenGroupV2 (demoOpenGroupEnv (Some (- 1))) (demoOpenMessage None) demoRoom False [3])
       = [SendToOpenGroupV2 (demoOpenMessage None) demoRoom False [3],
          WarnFailedOpenGroup demoRoom (InvalidServerIdError (Some (- 1))),
          HandleOpenGroupSentFailure (demoOpenMessage None) (InvalidServerIdError (Some (- 1)))]
   \<and> isBlinded (demoOpenGroupEnv None) ''15ab''
   \<and> senderSendToOpenGroupV2BlindedRequest (demoOpenGroupEnv None) [1, 2] demoRoom ''15ab''
       = Inr \<lparr> serverId = None, sentTimestamp = Some 1000 \<rparr>
   \<and> snd (sendToOpenGroupV2BlindedRequest (demoOpenGroupEnv None) [1, 2] (demoOpenMessage None)
             ''15ab'' demoRoom)
       = [SendToOpenGroupV2BlindedRequest [1, 2] demoRoom ''15ab'',
          WarnFailedOpenGroup demoRoom (InvalidServerIdError None),
          HandleOpenGroupSentFailure (demoOpenMessage None) (InvalidServerIdError None)]"
proof -
  let ?r1 = "\<lparr> serverId = Some (- 1), sentTimestamp = Some 1000 \<rparr>"
  let ?r2 = "\<lparr> serverId = None, sentTimestamp = Some (1000 :: int) \<rparr>"
  have a1: "reaction (demoOpenMessage None) = None" by (simp add: demoOpenMessage_def)
  have a2: "senderSendToOpenGroupV2 (demoOpenGroupEnv (Some (- 1))) (demoOpenMessage None) demoRoom
      False [3] = Inr ?r1"
    by (simp add: demoOpenGroupEnv_def)
  have a3: "serverId ?r1 \<in> {None, Some 0, Some (- 1)}" by simp
  have b1: "isBlinded (demoOpenGroupEnv None) ''15ab''" by (simp add: demoOpenGroupEnv_def)
  have b2: "senderSendToOpenGroupV2BlindedRequest (demoOpenGroupEnv None) [1, 2] demoRoom ''15ab''
      = Inr ?r2"
    by (simp add: demoOpenGroupEnv_def)
  have b3: "serverId ?r2 \<in> {None, Some 0, Some (- 1)}" by simp
  from openGroup_invalid_serverId
    [of "demoOpenMessage None" "demoOpenGroupEnv (Some (- 1))" demoRoom False "[3]" ?r1]
    a1 a2 a3
  have c1: "snd (sendToOpenGroupV2 (demoOpenGroupEnv (Some (- 1))) (demoOpenMessage None) demoRoom
        False [3])
       = [SendToOpenGroupV2 (demoOpenMessage None) demoRoom False [3],
          WarnFailedOpenGroup demoRoom (InvalidServerIdError (serverId ?r1)),
          HandleOpenGroupSentFailure (demoOpenMessage None) (InvalidServerIdError (serverId ?r1))]"
    by blast
  from openGroup_invalid_serverId
    [of _ "demoOpenGroupEnv None" demoRoom _ _ ?r2 "''15ab''" "[1, 2]" ]
    b1 b2 b3
  have c2: "snd (sendToOpenGroupV2BlindedRequest (demoOpenGroupEnv None) [1, 2] (demoOpenMessage None)
             ''15ab'' demoRoom)
       = [SendToOpenGroupV2BlindedRequest [1, 2] demoRoom ''15ab'',
          WarnFailedOpenGroup demoRoom (InvalidServerIdError (serverId ?r2)),
          HandleOpenGroupSentFailure (demoOpenMessage None) (InvalidServerIdError (serverId ?r2))]"
    by blast
  from a1 a2 b1 b2 c1 c2 show ?thesis by simp
qed

text \<open>
  C10, as amended.  For a message carrying a reaction, \<open>sendToOpenGroupV2\<close> calls the
  reaction endpoint first.  When the endpoint resolves, nothing else is called and the
  function returns at once.  When it rejects, the shared \<^verbatim>\<open>catch\<close> logs a warning and
  awaits the failure handler, whose outcome is the send's.  In both cases neither
  open-group transport is called, the public-message success handler is never called, and
  no server id is validated: the outcome is the same whatever the transport and the
  success handler would do.
\<close>

theorem sendToOpenGroupV2_reaction:
  "reaction msg = Some r \<longrightarrow>
     (\<forall>b. sendSogsReactionOnionV4 env (serverUrl roomInfos) (roomId roomInfos) r blinded = Inr b \<longrightarrow>
        sendToOpenGroupV2 env msg roomInfos blinded filesToLink
          = (Inr (), [SendSogsReaction (serverUrl roomInfos) (roomId roomInfos) r blinded]))
     \<and> (\<forall>e. sendSogsReactionOnionV4 env (serverUrl roomInfos) (roomId roomInfos) r blinded = Inl e \<longrightarrow>
        sendToOpenGroupV2 env msg roomInfos blinded filesToLink
          = (handleOpenGroupSentFailure env msg e,
             [SendSogsReaction (serverUrl roomInfos) (roomId roomInfos) r blinded,
              WarnFailedOpenGroup roomInfos e, HandleOpenGroupSentFailure msg e]))
     \<and> \<not> list_ex isOpenGroupTransport (snd (sendToOpenGroupV2 env msg roomInfos blinded filesToLink))
     \<and> \<not> list_ex isPublicSuccess (snd (sendToOpenGroupV2 env msg roomInfos blinded filesToLink))
     \<and> (\<forall>f h. sendToOpenGroupV2
                 (env\<lparr> senderSendToOpenGroupV2 := f, handlePublicMessageSentSuccess := h \<rparr>)
                 msg roomInfos blinded filesToLink
               = sendToOpenGroupV2 env msg roomInfos blinded filesToLink)"
  by (cases "sendSogsReactionOnionV4 env (serverUrl roomInfos) (roomId roomInfos) r blinded")
    (simp_all add: sendToOpenGroupV2_def openGroupSendFailed_def)

text \<open>
  C10 as stated fails where the reaction endpoint rejects: besides the endpoint, the
  warning is logged and the failure handler is called before the function returns.
\<close>

theorem sendToOpenGroupV2_reaction_counterexample:
  "reaction (demoOpenMessage (Some ''+1'')) = Some ''+1''
   \<and> sendToOpenGroupV2 demoReactionDownEnv (demoOpenMessage (Some ''+1'')) demoRoom True [3]
       = (Inr (),
          [SendSogsReaction ''https://sogs.example'' ''lobby'' ''+1'' True,
           WarnFailedOpenGroup demoRoom (Error ''reaction endpoint down''),
           HandleOpenGroupSentFailure (demoOpenMessage (Some ''+1'')) (Error ''reaction endpoint down'')])"
  by (simp add: sendToOpenGroupV2_def openGroupSendFailed_def demoReactionDownEnv_def
      demoOpenGroupEnv_def demoOpenMessage_def demoRoom_def)

theorem sendToOpenGroupV2_reaction_witness:
  "reaction (demoOpenMessage (Some ''+1'')) = Some ''+1''
   \<and> sendSogsReactionOnionV4 (demoOpenGroupEnv (Some (- 1))) (serverUrl demoRoom) (roomId demoRoom)
        ''+1'' True = Inr True
   \<and> sendToOpenGroupV2 (demoOpenGroupEnv (Some (- 1))) (demoOpenMessage (Some ''+1'')) demoRoom True [3]
       = (Inr (), [SendSogsReaction (serverUrl demoRoom) (roomId demoRoom) ''+1'' True])
   \<and> sendSogsReactionOnionV4 demoReactionDownEnv (serverUrl demoRoom) (roomId demoRoom) ''+1'' True
       = Inl (Error ''reaction endpoint down'')
   \<and> sendToOpenGroupV2 demoReactionDownEnv (demoOpenMessage (Some ''+1'')) demoRoom True [3]
       = (Inr (),
          [SendSogsReaction (serverUrl demoRoom) (roomId demoRoom) ''+1'' True,
           WarnFailedOpenGroup demoRoom (Error ''reaction endpoint down''),
           HandleOpenGroupSentFailure (demoOpenMessage (Some ''+1'')) (Error ''reaction endpoint down'')])"
proof -
  have a: "reaction (demoOpenMessage (Some ''+1'')) = Some ''+1''"
    by (simp add: demoOpenMessage_def)
  have b: "sendSogsReactionOnionV4 (demoOpenGroupEnv (Some (- 1))) (serverUrl demoRoom)
      (roomId demoRoom) ''+1'' True = Inr True"
    by (simp add: demoOpenGroupEnv_def)
  from sendToOpenGroupV2_reaction
    [of "demoOpenMessage (Some ''+1'')" "''+1''" "demoOpenGroupEnv (Some (- 1))" demoRoom True "[3]"]
    a b
  have c: "sendToOpenGroupV2 (demoOpenGroupEnv (Some (- 1))) (demoOpenMessage (Some ''+1'')) demoRoom True [3]
       = (Inr (), [SendSogsReaction (serverUrl demoRoom) (roomId demoRoom) ''+1'' True])"
    by blast
  have d: "sendSogsReactionOnionV4 demoReactionDownEnv (serverUrl demoRoom) (roomId demoRoom) ''+1'' True
       = Inl (Error ''reaction endpoint down'')"
    by (simp add: demoReactionDownEnv_def)
  have h: "handleOpenGroupSentFailure demoReactionDownEnv (demoOpenMessage (Some ''+1''))
      (Error ''reaction endpoint down'') = Inr ()"
    by (simp add: demoReactionDownEnv_def demoOpenGroupEnv_def)
  from sendToOpenGroupV2_reaction
    [of "demoOpenMessage (Some ''+1'')" "''+1''" demoReactionDownEnv demoRoom True "[3]"]
    a d
  have "sendToOpenGroupV2 demoReactionDownEnv (demoOpenMessage (Some ''+1'')) demoRoom True [3]
       = (handleOpenGroupSentFailure demoReactionDownEnv (demoOpenMessage (Some ''+1''))
            (Error ''reaction endpoint down''),
          [SendSogsReaction (serverUrl demoRoom) (roomId demoRoom) ''+1'' True,
           WarnFailedOpenGroup demoRoom (Error ''reaction endpoint down''),
           HandleOpenGroupSentFailure (demoOpenMessage (Some ''+1'')) (Error ''reaction endpoint down'')])"
    by blast
  with h have e: "sendToOpenGroupV2 demoReactionDownEnv (demoOpenMessage (Some ''+1'')) demoRoom True [3]
       = (Inr (),
          [SendSogsReaction (serverUrl demoRoom) (roomId demoRoom) ''+1'' True,
           WarnFailedOpenGroup demoRoom (Error ''reaction endpoint down''),
           HandleOpenGroupSentFailure (demoOpenMessage (Some ''+1'')) (Error ''reaction endpoint down'')])"
    by simp
  from a b c d e show ?thesis by blast
qed

section \<open>Properties of the queue\<close>

text \<open>
  C9.  When \<open>sendToPubKeyNonDurably\<close> fails before a raw message exists (the conversion
  \<^verbatim>\<open>toRawMessage\<close> rejects), it returns \<^verbatim>\<open>null\<close> and calls no handler.  The failure
  handler is called exactly when the raw message exists and a later step fails: the
  transport send rejects, or the success handler does.
\<close>

theorem sendToPubKeyNonDurably_failure_handler:
  "(\<forall>e. toRawMessage env pubkey msg ns = Inl e \<longrightarrow>
      sendToPubKeyNonDurably env pubkey msg ns = (Inr None, []))
   \<and> (list_ex isSentFailure (snd (sendToPubKeyNonDurably env pubkey msg ns)) \<longleftrightarrow>
       (\<exists>rawMessage. toRawMessage env pubkey msg ns = Inr rawMessage
          \<and> (isl (send env rawMessage False)
              \<or> (\<exists>r. send env rawMessage False = Inr r
                    \<and> isl (handleMessageSentSuccess env rawMessage (effectiveTimestamp r)
                              (wrappedEnvelope r))))))
   \<and> (\<forall>rawMessage e. toRawMessage env pubkey msg ns = Inr rawMessage
          \<and> send env rawMessage False = Inl e \<longrightarrow>
        snd (sendToPubKeyNonDurably env pubkey msg ns)
          = [Send rawMessage False, HandleMessageSentFailure rawMessage e])"
  by (auto simp: sendToPubKeyNonDurably_def split: sum.splits)



theorem sendToPubKeyNonDurably_failure_handler_witness:
  "toRawMessage (demoQueueEnv False True) (PubKey ''05bob'') (demoContent VisibleMessage None) 0
     = Inl (Error ''cannot encode'')
   \<and> sendToPubKeyNonDurably (demoQueueEnv False True) (PubKey ''05bob'')
        (demoContent VisibleMessage None) 0 = (Inr None, [])
   \<and> toRawMessage (demoQueueEnv True False) (PubKey ''05bob'') (demoContent VisibleMessage None) 0
     = Inr demoRaw
   \<and> send (demoQueueEnv True False) demoRaw False = Inl (Error ''relay unreachable'')
   \<and> snd (sendToPubKeyNonDurably (demoQueueEnv True False) (PubKey ''05bob'')
        (demoContent VisibleMessage None) 0)
     = [Send demoRaw False, HandleMessageSentFailure demoRaw (Error ''relay unreachable'')]"
proof -
  let ?m = "demoContent VisibleMessage None"
  have a: "toRawMessage (demoQueueEnv False True) (PubKey ''05bob'') ?m 0 = Inl (Error ''cannot encode'')"
    by (simp add: demoQueueEnv_def)
  from sendToPubKeyNonDurably_failure_handler [of "demoQueueEnv False True" "PubKey ''05bob''" ?m 0] a
  have b: "sendToPubKeyNonDurably (demoQueueEnv False True) (PubKey ''05bob'') ?m 0 = (Inr None, [])"
    by blast
  have c: "toRawMessage (demoQueueEnv True False) (PubKey ''05bob'') ?m 0 = Inr demoRaw"
    by (simp add: demoQueueEnv_def demoRaw_def demoContent_def)
  have d: "send (demoQueueEnv True False) demoRaw False = Inl (Error ''relay unreachable'')"
    by (simp add: demoQueueEnv_def)
  from sendToPubKeyNonDurably_failure_handler [of "demoQueueEnv True False" "PubKey ''05bob''" ?m 0] c d
  have e: "snd (sendToPubKeyNonDurably (demoQueueEnv True False) (PubKey ''05bob'') ?m 0)
     = [Send demoRaw False, HandleMessageSentFailure demoRaw (Error ''relay unreachable'')]"
    by blast
  from a b c d e show ?thesis by blast
qed

text \<open>
  C4.  When the destination equals the local account's identity and the message is not
  recognised as a sync message, \<open>process\<close> drops it silently: it returns without error,
  only the warning is logged, and the queue is as before, so that nothing was added to the
  pending cache and no job that would call the transport was enqueued.
\<close>

theorem process_drops_self_send:
  "ourPubKeyFromCache env = Some us \<and> isEqual env destinationPk us \<and> \<not> isSyncMessage env msg \<longrightarrow>
     process env st destinationPk msg ns sentCb isGroup
       = (Inr (), st, [WarnDroppingMessageToOurself])"
  by (simp add: process_def)



theorem process_drops_self_send_witness:
  "ourPubKeyFromCache (demoQueueEnv True True) = Some (PubKey ''05alice'')
   \<and> isEqual (demoQueueEnv True True) (PubKey ''05alice'') (PubKey ''05alice'')
   \<and> \<not> isSyncMessage (demoQueueEnv True True) (demoContent VisibleMessage None)
   \<and> process (demoQueueEnv True True) demoState (PubKey ''05alice'')
        (demoContent VisibleMessage None) 0 None False
       = (Inr (), demoState, [WarnDroppingMessageToOurself])"
proof -
  have a: "ourPubKeyFromCache (demoQueueEnv True True) = Some (PubKey ''05alice'')"
    by (simp add: demoQueueEnv_def)
  have b: "isEqual (demoQueueEnv True True) (PubKey ''05alice'') (PubKey ''05alice'')"
    by (simp add: demoQueueEnv_def)
  have c: "\<not> isSyncMessage (demoQueueEnv True True) (demoContent VisibleMessage None)"
    by (simp add: demoQueueEnv_def demoContent_def truthy_def)
  from process_drops_self_send
    [of "demoQueueEnv True True" "PubKey ''05alice''" "PubKey ''05alice''"
        "demoContent VisibleMessage None" demoState 0 None False] a b c
  have "process (demoQueueEnv True True) demoState (PubKey ''05alice'')
        (demoContent VisibleMessage None) 0 None False
       = (Inr (), demoState, [WarnDroppingMessageToOurself])"
    by blast
  with a b c show ?thesis by blast
qed



section \<open>Properties of processPending and of its jobs\<close>

lemma has_jobsWithId: "has q i \<longleftrightarrow> jobsWithId q i \<noteq> []"
  by (auto simp: has_def jobsWithId_def filter_empty_conv)

lemma enqueuePending_cases:
  "enqueuePending s q m =
     (if has q (raw_identifier m) then q
      else q @ [(raw_identifier m, \<lparr> jobMessage = m, jobIsSyncMessage = s \<rparr>)])"
  by (simp add: enqueuePending_def addWithId_def)

lemma jobsWithId_append: "jobsWithId (q @ r) i = jobsWithId q i @ jobsWithId r i"
  by (simp add: jobsWithId_def)

lemma foldl_enqueue_old:
  "has q i \<Longrightarrow> jobsWithId (foldl (enqueuePending s) q ms) i = jobsWithId q i"
proof (induction ms arbitrary: q)
  case Nil
  then show ?case by simp
next
  case (Cons m ms)
  have h: "has (enqueuePending s q m) i"
    using Cons.prems by (auto simp: enqueuePending_cases has_def)
  have "jobsWithId (enqueuePending s q m) i = jobsWithId q i"
    using Cons.prems by (auto simp: enqueuePending_cases jobsWithId_append jobsWithId_def)
  with Cons.IH [OF h] show ?case by simp
qed

lemma foldl_enqueue_new:
  "\<not> has q i \<Longrightarrow> i \<in> raw_identifier ` set ms \<Longrightarrow>
     \<exists>m \<in> set ms. raw_identifier m = i
       \<and> jobsWithId (foldl (enqueuePending s) q ms) i
           = [(i, \<lparr> jobMessage = m, jobIsSyncMessage = s \<rparr>)]"
proof (induction ms arbitrary: q)
  case Nil
  then show ?case by simp
next
  case (Cons m ms)
  show ?case
  proof (cases "raw_identifier m = i")
    case True
    let ?q = "q @ [(i, \<lparr> jobMessage = m, jobIsSyncMessage = s \<rparr>)]"
    from True Cons.prems(1) have e: "enqueuePending s q m = ?q"
      by (simp add: enqueuePending_cases)
    from Cons.prems(1) have "jobsWithId q i = []" by (simp add: has_jobsWithId)
    then have j: "jobsWithId ?q i = [(i, \<lparr> jobMessage = m, jobIsSyncMessage = s \<rparr>)]"
      by (simp add: jobsWithId_append) (simp add: jobsWithId_def)
    then have "has ?q i" by (simp add: has_jobsWithId)
    from foldl_enqueue_old [OF this, of s ms] j e True show ?thesis by simp
  next
    case False
    with Cons.prems(2) have mem: "i \<in> raw_identifier ` set ms" by auto
    from False Cons.prems(1) have "\<not> has (enqueuePending s q m) i"
      by (auto simp: enqueuePending_cases has_def)
    from Cons.IH [OF this mem] show ?thesis by auto
  qed
qed

lemma foldl_enqueue_prefix: "\<exists>new. foldl (enqueuePending s) q ms = q @ new"
proof (induction ms arbitrary: q)
  case Nil
  then show ?case by simp
next
  case (Cons m ms)
  from Cons.IH [of "enqueuePending s q m"] obtain new where
    n: "foldl (enqueuePending s) (enqueuePending s q m) ms = enqueuePending s q m @ new" by blast
  obtain x where "enqueuePending s q m = q @ x"
    by (cases "has q (raw_identifier m)") (simp_all add: enqueuePending_cases)
  with n show ?case by simp
qed

lemma getJobQueue_update:
  "getJobQueue (st\<lparr> jobQueues := (jobQueues st)(key dev \<mapsto> q) \<rparr>) dev = q"
  by (simp add: getJobQueue_def)

lemma runJob_shape:
  "\<exists>mid. snd (runJob env cache job)
       = Send (jobMessage job) (jobIsSyncMessage job) # mid @ [CacheRemove (jobMessage job)]
     \<and> \<not> list_ex isSend mid \<and> \<not> list_ex isCacheRemove mid"
  by (simp add: runJob_def Let_def split: sum.splits option.splits)

lemma runJob_cleared:
  "list_ex isCallbacksDelete (snd (runJob env cache job)) \<longleftrightarrow>
     (\<exists>r. send env (jobMessage job) (jobIsSyncMessage job) = Inr r
        \<and> handleMessageSentSuccess env (jobMessage job) (effectiveTimestamp r) (wrappedEnvelope r)
            = Inr ()
        \<and> (case callbacks cache (raw_identifier (jobMessage job)) of
             None \<Rightarrow> True
           | Some cb \<Rightarrow> cb (jobMessage job) = Inr ()))"
  by (auto simp: runJob_def Let_def split: sum.splits option.splits)

lemma runJob_failure_or_cleared:
  "list_ex isSentFailure (snd (runJob env cache job)) \<longleftrightarrow>
     \<not> list_ex isCallbacksDelete (snd (runJob env cache job))"
  by (simp add: runJob_def Let_def split: sum.splits option.splits)

lemma runJob_callback:
  "list_ex isSentCb (snd (runJob env cache job)) \<longleftrightarrow>
     (\<exists>r cb. send env (jobMessage job) (jobIsSyncMessage job) = Inr r
        \<and> handleMessageSentSuccess env (jobMessage job) (effectiveTimestamp r) (wrappedEnvelope r)
            = Inr ()
        \<and> callbacks cache (raw_identifier (jobMessage job)) = Some cb)"
  by (auto simp: runJob_def Let_def split: sum.splits option.splits)


text \<open>
  C3, as amended.  When the pending cache returns the messages of a destination,
  \<open>processPending\<close> leaves the cache alone, keeps the jobs already queued, and for every
  returned message whose identifier is not yet in the destination's queue enqueues exactly
  one job under that identifier (built from the first returned message with it: the message
  itself when the identifiers are pairwise different).  A job calls the transport once, first,
  and never again; the cache's \<open>remove\<close> of the message is its last step, once, whatever
  the outcome, and so never precedes the send.  When the send rejects, the failure handler
  follows and nothing else: the callback is neither invoked nor cleared by the job.  When
  the send resolves, the success handler follows.  When the success handler rejects, the
  failure handler follows and the callback is neither invoked nor cleared.  When it
  resolves, the registered callback, if any, is invoked; when the callback rejects, the
  failure handler follows and the callback is not cleared; when it resolves, or none is
  registered, the entry is cleared.  So the callback is invoked exactly when send and success
  handler have resolved and one is registered, it is cleared exactly when the callback
  has resolved as well, and the failure handler is called exactly when it is not cleared.
\<close>

theorem processPending_jobs:
  "(getForDevice env (pendingMessageCache st) dev = Inr messages \<longrightarrow>
      fst (processPending env st dev isSync) = Inr ()
      \<and> pendingMessageCache (snd (processPending env st dev isSync)) = pendingMessageCache st
      \<and> (\<exists>new. getJobQueue (snd (processPending env st dev isSync)) dev
                  = getJobQueue st dev @ new)
      \<and> (\<forall>m \<in> set messages. \<not> has (getJobQueue st dev) (raw_identifier m) \<longrightarrow>
           (\<exists>m' \<in> set messages. raw_identifier m' = raw_identifier m
              \<and> (distinct (map raw_identifier messages) \<longrightarrow> m' = m)
              \<and> jobsWithId (getJobQueue (snd (processPending env st dev isSync)) dev)
                   (raw_identifier m)
                  = [(raw_identifier m, \<lparr> jobMessage = m', jobIsSyncMessage = isSync \<rparr>)])))
   \<and> (\<exists>mid. snd (runJob env cache job)
         = Send (jobMessage job) (jobIsSyncMessage job) # mid @ [CacheRemove (jobMessage job)]
       \<and> \<not> list_ex isSend mid \<and> \<not> list_ex isCacheRemove mid)
   \<and> (\<forall>e. send env (jobMessage job) (jobIsSyncMessage job) = Inl e \<longrightarrow>
         runJob env cache job
           = (cacheRemove env cache (jobMessage job),
              [Send (jobMessage job) (jobIsSyncMessage job),
               HandleMessageSentFailure (jobMessage job) e,
               CacheRemove (jobMessage job)]))
   \<and> (\<forall>r. send env (jobMessage job) (jobIsSyncMessage job) = Inr r \<longrightarrow>
         snd (runJob env cache job) ! 1
           = HandleMessageSentSuccess (jobMessage job) (effectiveTimestamp r) (wrappedEnvelope r))
   \<and> (\<forall>r. send env (jobMessage job) (jobIsSyncMessage job) = Inr r
         \<and> handleMessageSentSuccess env (jobMessage job) (effectiveTimestamp r) (wrappedEnvelope r)
             = Inr ()
         \<and> (case callbacks cache (raw_identifier (jobMessage job)) of
              None \<Rightarrow> True
            | Some cb \<Rightarrow> cb (jobMessage job) = Inr ()) \<longrightarrow>
         runJob env cache job
           = (cacheRemove env
                (cache\<lparr> callbacks := (callbacks cache)(raw_identifier (jobMessage job) := None) \<rparr>)
                (jobMessage job),
              [Send (jobMessage job) (jobIsSyncMessage job),
               HandleMessageSentSuccess (jobMessage job) (effectiveTimestamp r) (wrappedEnvelope r)]
              @ (case callbacks cache (raw_identifier (jobMessage job)) of
                   None \<Rightarrow> []
                 | Some cb \<Rightarrow> [SentCb (jobMessage job)])
              @ [CallbacksDelete (raw_identifier (jobMessage job)),
                 CacheRemove (jobMessage job)]))
   \<and> (\<forall>r e. send env (jobMessage job) (jobIsSyncMessage job) = Inr r
         \<and> handleMessageSentSuccess env (jobMessage job) (effectiveTimestamp r) (wrappedEnvelope r)
             = Inl e \<longrightarrow>
         runJob env cache job
           = (cacheRemove env cache (jobMessage job),
              [Send (jobMessage job) (jobIsSyncMessage job),
               HandleMessageSentSuccess (jobMessage job) (effectiveTimestamp r) (wrappedEnvelope r),
               HandleMessageSentFailure (jobMessage job) e,
               CacheRemove (jobMessage job)]))
   \<and> (\<forall>r cb e. send env (jobMessage job) (jobIsSyncMessage job) = Inr r
         \<and> handleMessageSentSuccess env (jobMessage job) (effectiveTimestamp r) (wrappedEnvelope r)
             = Inr ()
         \<and> callbacks cache (raw_identifier (jobMessage job)) = Some cb
         \<and> cb (jobMessage job) = Inl e \<longrightarrow>
         runJob env cache job
           = (cacheRemove env cache (jobMessage job),
              [Send (jobMessage job) (jobIsSyncMessage job),
               HandleMessageSentSuccess (jobMessage job) (effectiveTimestamp r) (wrappedEnvelope r),
               SentCb (jobMessage job),
               HandleMessageSentFailure (jobMessage job) e,
               CacheRemove (jobMessage job)]))
   \<and> (list_ex isSentCb (snd (runJob env cache job)) \<longleftrightarrow>
        (\<exists>r cb. send env (jobMessage job) (jobIsSyncMessage job) = Inr r
           \<and> handleMessageSentSuccess env (jobMessage job) (effectiveTimestamp r) (wrappedEnvelope r)
               = Inr ()
           \<and> callbacks cache (raw_identifier (jobMessage job)) = Some cb))
   \<and> (list_ex isCallbacksDelete (snd (runJob env cache job)) \<longleftrightarrow>
        (\<exists>r. send env (jobMessage job) (jobIsSyncMessage job) = Inr r
           \<and> handleMessageSentSuccess env (jobMessage job) (effectiveTimestamp r) (wrappedEnvelope r)
               = Inr ()
           \<and> (case callbacks cache (raw_identifier (jobMessage job)) of
                None \<Rightarrow> True
              | Some cb \<Rightarrow> cb (jobMessage job) = Inr ())))
   \<and> (list_ex isSentFailure (snd (runJob env cache job)) \<longleftrightarrow>
        \<not> list_ex isCallbacksDelete (snd (runJob env cache job)))"
proof -
  let ?st' = "snd (processPending env st dev isSync)"
  let ?q = "getJobQueue st dev"
  have a: "fst (processPending env st dev isSync) = Inr ()
      \<and> pendingMessageCache ?st' = pendingMessageCache st
      \<and> (\<exists>new. getJobQueue ?st' dev = ?q @ new)
      \<and> (\<forall>m \<in> set messages. \<not> has ?q (raw_identifier m) \<longrightarrow>
           (\<exists>m' \<in> set messages. raw_identifier m' = raw_identifier m
              \<and> (distinct (map raw_identifier messages) \<longrightarrow> m' = m)
              \<and> jobsWithId (getJobQueue ?st' dev) (raw_identifier m)
                  = [(raw_identifier m, \<lparr> jobMessage = m', jobIsSyncMessage = isSync \<rparr>)]))"
    if g: "getForDevice env (pendingMessageCache st) dev = Inr messages"
  proof -
    from g have p: "processPending env st dev isSync
        = (Inr (), st\<lparr> jobQueues := (jobQueues st)
                 (key dev \<mapsto> foldl (enqueuePending isSync) ?q messages) \<rparr>)"
      by (simp add: processPending_def)
    then have q': "getJobQueue ?st' dev = foldl (enqueuePending isSync) ?q messages"
      by (simp add: getJobQueue_update)
    from p have c1: "fst (processPending env st dev isSync) = Inr ()" by simp
    from p have c2: "pendingMessageCache ?st' = pendingMessageCache st" by simp
    from q' foldl_enqueue_prefix [of isSync ?q messages]
    have c3: "\<exists>new. getJobQueue ?st' dev = ?q @ new" by simp
    have c4: "\<exists>m' \<in> set messages. raw_identifier m' = raw_identifier m
              \<and> (distinct (map raw_identifier messages) \<longrightarrow> m' = m)
              \<and> jobsWithId (getJobQueue ?st' dev) (raw_identifier m)
                  = [(raw_identifier m, \<lparr> jobMessage = m', jobIsSyncMessage = isSync \<rparr>)]"
      if m: "m \<in> set messages" and n: "\<not> has ?q (raw_identifier m)" for m
    proof -
      from m have "raw_identifier m \<in> raw_identifier ` set messages" by simp
      from foldl_enqueue_new [OF n this, of isSync] obtain m' where
        m': "m' \<in> set messages" "raw_identifier m' = raw_identifier m"
        and j: "jobsWithId (foldl (enqueuePending isSync) ?q messages) (raw_identifier m)
            = [(raw_identifier m, \<lparr> jobMessage = m', jobIsSyncMessage = isSync \<rparr>)]"
        by blast
      have "m' = m" if "distinct (map raw_identifier messages)"
        using that m m' by (meson distinct_map inj_onD)
      with m' j q' show ?thesis by auto
    qed
    from c1 c2 c3 c4 show ?thesis by blast
  qed
  have b: "\<exists>mid. snd (runJob env cache job)
         = Send (jobMessage job) (jobIsSyncMessage job) # mid @ [CacheRemove (jobMessage job)]
       \<and> \<not> list_ex isSend mid \<and> \<not> list_ex isCacheRemove mid"
    by (rule runJob_shape)
  have c: "runJob env cache job
           = (cacheRemove env cache (jobMessage job),
              [Send (jobMessage job) (jobIsSyncMessage job),
               HandleMessageSentFailure (jobMessage job) e,
               CacheRemove (jobMessage job)])"
    if "send env (jobMessage job) (jobIsSyncMessage job) = Inl e" for e
    using that by (simp add: runJob_def Let_def)
  have d: "snd (runJob env cache job) ! 1
           = HandleMessageSentSuccess (jobMessage job) (effectiveTimestamp r) (wrappedEnvelope r)"
    if "send env (jobMessage job) (jobIsSyncMessage job) = Inr r" for r
    using that by (simp add: runJob_def Let_def split: sum.splits option.splits)
  have e: "runJob env cache job
           = (cacheRemove env
                (cache\<lparr> callbacks := (callbacks cache)(raw_identifier (jobMessage job) := None) \<rparr>)
                (jobMessage job),
              [Send (jobMessage job) (jobIsSyncMessage job),
               HandleMessageSentSuccess (jobMessage job) (effectiveTimestamp r) (wrappedEnvelope r)]
              @ (case callbacks cache (raw_identifier (jobMessage job)) of
                   None \<Rightarrow> []
                 | Some cb \<Rightarrow> [SentCb (jobMessage job)])
              @ [CallbacksDelete (raw_identifier (jobMessage job)),
                 CacheRemove (jobMessage job)])"
    if "send env (jobMessage job) (jobIsSyncMessage job) = Inr r
         \<and> handleMessageSentSuccess env (jobMessage job) (effectiveTimestamp r) (wrappedEnvelope r)
             = Inr ()
         \<and> (case callbacks cache (raw_identifier (jobMessage job)) of
              None \<Rightarrow> True
            | Some cb \<Rightarrow> cb (jobMessage job) = Inr ())" for r
    using that by (simp add: runJob_def Let_def split: option.splits)
  note f = runJob_callback [of env cache job]
  have g: "runJob env cache job
           = (cacheRemove env cache (jobMessage job),
              [Send (jobMessage job) (jobIsSyncMessage job),
               HandleMessageSentSuccess (jobMessage job) (effectiveTimestamp r) (wrappedEnvelope r),
               HandleMessageSentFailure (jobMessage job) e',
               CacheRemove (jobMessage job)])"
    if "send env (jobMessage job) (jobIsSyncMessage job) = Inr r
         \<and> handleMessageSentSuccess env (jobMessage job) (effectiveTimestamp r) (wrappedEnvelope r)
             = Inl e'" for r e'
    using that by (simp add: runJob_def Let_def)
  have h: "runJob env cache job
           = (cacheRemove env cache (jobMessage job),
              [Send (jobMessage job) (jobIsSyncMessage job),
               HandleMessageSentSuccess (jobMessage job) (effectiveTimestamp r) (wrappedEnvelope r),
               SentCb (jobMessage job),
               HandleMessageSentFailure (jobMessage job) e',
               CacheRemove (jobMessage job)])"
    if "send env (jobMessage job) (jobIsSyncMessage job) = Inr r
         \<and> handleMessageSentSuccess env (jobMessage job) (effectiveTimestamp r) (wrappedEnvelope r)
             = Inr ()
         \<and> callbacks cache (raw_identifier (jobMessage job)) = Some cb
         \<and> cb (jobMessage job) = Inl e'" for r cb e'
    using that by (simp add: runJob_def Let_def)
  note i = runJob_cleared [of env cache job]
  note j = runJob_failure_or_cleared [of env cache job]
  from a b c d e g h f i j show ?thesis by blast
qed

text \<open>
  C3 as stated fails: with a callback registered for the message and a transport that
  rejects, the job calls the failure handler and the cache's \<open>remove\<close>; it neither invokes
  the callback nor clears it.
\<close>

theorem processPending_jobs_counterexample:
  "callbacks demoCache (raw_identifier demoRaw) = Some demoCb
   \<and> send (demoQueueEnv True False) demoRaw False = Inl (Error ''relay unreachable'')
   \<and> snd (runJob (demoQueueEnv True False) demoCache demoJob)
       = [Send demoRaw False,
          HandleMessageSentFailure demoRaw (Error ''relay unreachable''),
          CacheRemove demoRaw]"
  by (simp add: runJob_def Let_def demoQueueEnv_def demoCache_def demoJob_def demoRaw_def)


lemma demo_getForDevice:
  "getForDevice (demoQueueEnv True True) (pendingMessageCache demoPendingState) (PubKey ''05bob'')
     = Inr [demoRaw]"
  by (simp add: demoQueueEnv_def demoPendingState_def demoCache_def demoRaw_def)

theorem processPending_jobs_witness:
  "getForDevice (demoQueueEnv True True) (pendingMessageCache demoPendingState) (PubKey ''05bob'')
     = Inr [demoRaw]
   \<and> \<not> has (getJobQueue demoPendingState (PubKey ''05bob'')) (raw_identifier demoRaw)
   \<and> distinct (map raw_identifier [demoRaw])
   \<and> jobsWithId (getJobQueue (snd (processPending (demoQueueEnv True True) demoPendingState
          (PubKey ''05bob'') False)) (PubKey ''05bob'')) (raw_identifier demoRaw)
       = [(raw_identifier demoRaw, \<lparr> jobMessage = demoRaw, jobIsSyncMessage = False \<rparr>)]
   \<and> send (demoQueueEnv True True) (jobMessage demoJob) (jobIsSyncMessage demoJob)
       = Inr \<lparr> wrappedEnvelope = [9], effectiveTimestamp = 1000 \<rparr>
   \<and> handleMessageSentSuccess (demoQueueEnv True True) (jobMessage demoJob) 1000 [9] = Inr ()
   \<and> callbacks demoCache (raw_identifier (jobMessage demoJob)) = Some demoCb
   \<and> demoCb (jobMessage demoJob) = Inr ()
   \<and> snd (runJob (demoQueueEnv True True) demoCache demoJob)
       = [Send demoRaw False, HandleMessageSentSuccess demoRaw 1000 [9], SentCb demoRaw,
          CallbacksDelete ''m1'', CacheRemove demoRaw]
   \<and> send (demoQueueEnv True False) (jobMessage demoJob) (jobIsSyncMessage demoJob)
       = Inl (Error ''relay unreachable'')
   \<and> runJob (demoQueueEnv True False) demoCache demoJob
       = (cacheRemove (demoQueueEnv True False) demoCache demoRaw,
          [Send demoRaw False, HandleMessageSentFailure demoRaw (Error ''relay unreachable''),
           CacheRemove demoRaw])
   \<and> send demoHandlerDownEnv (jobMessage demoJob) (jobIsSyncMessage demoJob)
       = Inr \<lparr> wrappedEnvelope = [9], effectiveTimestamp = 1000 \<rparr>
   \<and> handleMessageSentSuccess demoHandlerDownEnv (jobMessage demoJob) 1000 [9]
       = Inl (Error ''handler failed'')
   \<and> runJob demoHandlerDownEnv demoCache demoJob
       = (cacheRemove demoHandlerDownEnv demoCache demoRaw,
          [Send demoRaw False, HandleMessageSentSuccess demoRaw 1000 [9],
           HandleMessageSentFailure demoRaw (Error ''handler failed''), CacheRemove demoRaw])
   \<and> callbacks demoFailingCbCache (raw_identifier (jobMessage demoJob)) = Some demoFailingCb
   \<and> demoFailingCb (jobMessage demoJob) = Inl (Error ''callback failed'')
   \<and> runJob (demoQueueEnv True True) demoFailingCbCache demoJob
       = (cacheRemove (demoQueueEnv True True) demoFailingCbCache demoRaw,
          [Send demoRaw False, HandleMessageSentSuccess demoRaw 1000 [9], SentCb demoRaw,
           HandleMessageSentFailure demoRaw (Error ''callback failed''), CacheRemove demoRaw])"
proof -
  let ?env = "demoQueueEnv True True"
  let ?bad = "demoQueueEnv True False"
  let ?r = "\<lparr> wrappedEnvelope = [9], effectiveTimestamp = 1000 \<rparr>"
  note t = processPending_jobs
    [of ?env demoPendingState "PubKey ''05bob''" "[demoRaw]" False demoCache demoJob]
  note t' = processPending_jobs
    [of ?bad demoPendingState "PubKey ''05bob''" "[demoRaw]" False demoCache demoJob]
  have a: "\<not> has (getJobQueue demoPendingState (PubKey ''05bob'')) (raw_identifier demoRaw)"
    by (simp add: getJobQueue_def demoPendingState_def has_def)
  have d: "distinct (map raw_identifier [demoRaw])" by simp
  from t demo_getForDevice a d
  have j: "jobsWithId (getJobQueue (snd (processPending ?env demoPendingState
          (PubKey ''05bob'') False)) (PubKey ''05bob'')) (raw_identifier demoRaw)
       = [(raw_identifier demoRaw, \<lparr> jobMessage = demoRaw, jobIsSyncMessage = False \<rparr>)]"
    by fastforce
  have s: "send ?env (jobMessage demoJob) (jobIsSyncMessage demoJob) = Inr ?r"
    by (simp add: demoQueueEnv_def)
  have h: "handleMessageSentSuccess ?env (jobMessage demoJob) 1000 [9] = Inr ()"
    by (simp add: demoQueueEnv_def)
  have c: "callbacks demoCache (raw_identifier (jobMessage demoJob)) = Some demoCb"
    by (simp add: demoCache_def demoJob_def demoRaw_def)
  have cb: "demoCb (jobMessage demoJob) = Inr ()" by (simp add: demoCb_def)
  have m: "jobMessage demoJob = demoRaw" "jobIsSyncMessage demoJob = False"
    "raw_identifier demoRaw = ''m1''"
    by (simp_all add: demoJob_def demoRaw_def)
  have pre: "send ?env (jobMessage demoJob) (jobIsSyncMessage demoJob) = Inr ?r
         \<and> handleMessageSentSuccess ?env (jobMessage demoJob) (effectiveTimestamp ?r) (wrappedEnvelope ?r)
             = Inr ()
         \<and> (case callbacks demoCache (raw_identifier (jobMessage demoJob)) of
              None \<Rightarrow> True
            | Some cb \<Rightarrow> cb (jobMessage demoJob) = Inr ())"
    using s h c cb by simp
  from t pre have "runJob ?env demoCache demoJob
           = (cacheRemove ?env
                (demoCache\<lparr> callbacks := (callbacks demoCache)(raw_identifier (jobMessage demoJob) := None) \<rparr>)
                (jobMessage demoJob),
              [Send (jobMessage demoJob) (jobIsSyncMessage demoJob),
               HandleMessageSentSuccess (jobMessage demoJob) (effectiveTimestamp ?r) (wrappedEnvelope ?r)]
              @ (case callbacks demoCache (raw_identifier (jobMessage demoJob)) of
                   None \<Rightarrow> []
                 | Some cb \<Rightarrow> [SentCb (jobMessage demoJob)])
              @ [CallbacksDelete (raw_identifier (jobMessage demoJob)),
                 CacheRemove (jobMessage demoJob)])"
    by blast
  with c m have ok: "snd (runJob ?env demoCache demoJob)
       = [Send demoRaw False, HandleMessageSentSuccess demoRaw 1000 [9], SentCb demoRaw,
          CallbacksDelete ''m1'', CacheRemove demoRaw]"
    by simp
  have f: "send ?bad (jobMessage demoJob) (jobIsSyncMessage demoJob) = Inl (Error ''relay unreachable'')"
    by (simp add: demoQueueEnv_def)
  from t' f have "runJob ?bad demoCache demoJob
           = (cacheRemove ?bad demoCache (jobMessage demoJob),
              [Send (jobMessage demoJob) (jobIsSyncMessage demoJob),
               HandleMessageSentFailure (jobMessage demoJob) (Error ''relay unreachable''),
               CacheRemove (jobMessage demoJob)])"
    by blast
  with m have ko: "runJob ?bad demoCache demoJob
       = (cacheRemove ?bad demoCache demoRaw,
          [Send demoRaw False, HandleMessageSentFailure demoRaw (Error ''relay unreachable''),
           CacheRemove demoRaw])"
    by simp
  have s2: "send demoHandlerDownEnv (jobMessage demoJob) (jobIsSyncMessage demoJob) = Inr ?r"
    by (simp add: demoHandlerDownEnv_def demoQueueEnv_def)
  have h2: "handleMessageSentSuccess demoHandlerDownEnv (jobMessage demoJob) 1000 [9]
      = Inl (Error ''handler failed'')"
    by (simp add: demoHandlerDownEnv_def)
  have pre2: "send demoHandlerDownEnv (jobMessage demoJob) (jobIsSyncMessage demoJob) = Inr ?r
      \<and> handleMessageSentSuccess demoHandlerDownEnv (jobMessage demoJob) (effectiveTimestamp ?r)
            (wrappedEnvelope ?r) = Inl (Error ''handler failed'')"
    using s2 h2 by simp
  from processPending_jobs
    [of demoHandlerDownEnv demoPendingState "PubKey ''05bob''" "[demoRaw]" False demoCache demoJob]
    pre2
  have "runJob demoHandlerDownEnv demoCache demoJob
       = (cacheRemove demoHandlerDownEnv demoCache (jobMessage demoJob),
          [Send (jobMessage demoJob) (jobIsSyncMessage demoJob),
           HandleMessageSentSuccess (jobMessage demoJob) (effectiveTimestamp ?r) (wrappedEnvelope ?r),
           HandleMessageSentFailure (jobMessage demoJob) (Error ''handler failed''),
           CacheRemove (jobMessage demoJob)])"
    by blast
  with m have hd: "runJob demoHandlerDownEnv demoCache demoJob
       = (cacheRemove demoHandlerDownEnv demoCache demoRaw,
          [Send demoRaw False, HandleMessageSentSuccess demoRaw 1000 [9],
           HandleMessageSentFailure demoRaw (Error ''handler failed''), CacheRemove demoRaw])"
    by simp
  have c3: "callbacks demoFailingCbCache (raw_identifier (jobMessage demoJob)) = Some demoFailingCb"
    by (simp add: demoFailingCbCache_def demoJob_def demoRaw_def)
  have cb3: "demoFailingCb (jobMessage demoJob) = Inl (Error ''callback failed'')"
    by (simp add: demoFailingCb_def)
  have pre3: "send ?env (jobMessage demoJob) (jobIsSyncMessage demoJob) = Inr ?r
      \<and> handleMessageSentSuccess ?env (jobMessage demoJob) (effectiveTimestamp ?r)
            (wrappedEnvelope ?r) = Inr ()
      \<and> callbacks demoFailingCbCache (raw_identifier (jobMessage demoJob)) = Some demoFailingCb
      \<and> demoFailingCb (jobMessage demoJob) = Inl (Error ''callback failed'')"
    using s h c3 cb3 by simp
  from processPending_jobs
    [of ?env demoPendingState "PubKey ''05bob''" "[demoRaw]" False demoFailingCbCache demoJob]
    pre3
  have "runJob ?env demoFailingCbCache demoJob
       = (cacheRemove ?env demoFailingCbCache (jobMessage demoJob),
          [Send (jobMessage demoJob) (jobIsSyncMessage demoJob),
           HandleMessageSentSuccess (jobMessage demoJob) (effectiveTimestamp ?r) (wrappedEnvelope ?r),
           SentCb (jobMessage demoJob),
           HandleMessageSentFailure (jobMessage demoJob) (Error ''callback failed''),
           CacheRemove (jobMessage demoJob)])"
    by blast
  with m have cd: "runJob ?env demoFailingCbCache demoJob
       = (cacheRemove ?env demoFailingCbCache demoRaw,
          [Send demoRaw False, HandleMessageSentSuccess demoRaw 1000 [9], SentCb demoRaw,
           HandleMessageSentFailure demoRaw (Error ''callback failed''), CacheRemove demoRaw])"
    by simp
  from demo_getForDevice a d j s h c cb ok f ko s2 h2 hd c3 cb3 cd show ?thesis by blast
qed

end
